theory Spec2Isabelle
  imports Main "HOL-Library.AList"
begin

section \<open>Python values\<close>

text \<open>
  The smoke-test driver \<^verbatim>\<open>scripts/qa-smoke-test.py\<close> works on decoded JSON: Python
  dicts, lists, strings, ints, booleans and \<^verbatim>\<open>None\<close>. A dict keeps its insertion
  order, so it is an association list; assigning to a key that is present replaces the
  value in place and a new key goes to the end, which is what \<open>AList.update\<close> does.
  A decoded object has each key once. Numbers with a fraction are not modelled: no
  branch of the driver looks at one.
  Strings are byte lists; the text functions below are exact on ASCII text.
\<close>

datatype json =
    JNull
  | JBool bool
  | JInt int
  | JStr string
  | JList "json list"
  | JObj "(string \<times> json) list"

type_synonym dict = "(string \<times> json) list"

text \<open>The exceptions that the driver's own expressions can raise.\<close>

datatype exc = AttributeError | TypeError | KeyError | IndexError

text \<open>Truth value of a Python object, as \<^verbatim>\<open>if x\<close>, \<^verbatim>\<open>not x\<close> and \<^verbatim>\<open>x or y\<close> use it.\<close>

fun truthy :: "json \<Rightarrow> bool" where
  "truthy JNull = False"
| "truthy (JBool b) = b"
| "truthy (JInt i) = (i \<noteq> 0)"
| "truthy (JStr s) = (s \<noteq> [])"
| "truthy (JList xs) = (xs \<noteq> [])"
| "truthy (JObj kvs) = (kvs \<noteq> [])"

text \<open>\<^verbatim>\<open>x or y\<close>: the first operand when it is true, else the second.\<close>

definition py_or :: "json \<Rightarrow> json \<Rightarrow> json" where
  "py_or x y = (if truthy x then x else y)"

text \<open>\<^verbatim>\<open>d.get(k, default)\<close> on a dict.\<close>

definition dict_get :: "dict \<Rightarrow> string \<Rightarrow> json \<Rightarrow> json" where
  "dict_get d k dflt = (case map_of d k of None \<Rightarrow> dflt | Some v \<Rightarrow> v)"

text \<open>
  \<^verbatim>\<open>x.get(k, default)\<close> on any decoded value: only a dict has the method, every other
  value raises \<^verbatim>\<open>AttributeError\<close>.
\<close>

fun py_get :: "json \<Rightarrow> string \<Rightarrow> json \<Rightarrow> exc + json" where
  "py_get (JObj d) k dflt = Inr (dict_get d k dflt)"
| "py_get _ k dflt = Inl AttributeError"

text \<open>\<^verbatim>\<open>d[k]\<close> on a dict: \<^verbatim>\<open>KeyError\<close> when the key is missing.\<close>

definition dict_item :: "dict \<Rightarrow> string \<Rightarrow> exc + json" where
  "dict_item d k = (case map_of d k of None \<Rightarrow> Inl KeyError | Some v \<Rightarrow> Inr v)"

text \<open>
  \<^verbatim>\<open>for x in v\<close>: a list yields its elements, a dict its keys, a string its characters;
  nothing else is iterable (\<^verbatim>\<open>TypeError\<close>).
\<close>

fun py_iter :: "json \<Rightarrow> exc + json list" where
  "py_iter (JList xs) = Inr xs"
| "py_iter (JObj d) = Inr (map (\<lambda>kv. JStr (fst kv)) d)"
| "py_iter (JStr s) = Inr (map (\<lambda>c. JStr [c]) s)"
| "py_iter _ = Inl TypeError"

subsection \<open>Text of a value\<close>

text \<open>\<^verbatim>\<open>str(n)\<close> for an int: decimal digits, with a minus sign when negative.\<close>

definition digit_char :: "int \<Rightarrow> char" where
  "digit_char d = ''0123456789'' ! nat d"

function str_digits :: "int \<Rightarrow> string" where
  "str_digits n =
     (if n < 10 then [digit_char n]
      else str_digits (n div 10) @ [digit_char (n mod 10)])"
  by pat_completeness auto
termination
  by (relation "measure nat") auto

declare str_digits.simps [simp del]

definition str_int :: "int \<Rightarrow> string" where
  "str_int i = (if i < 0 then ''-'' @ str_digits (- i) else str_digits i)"

text \<open>
  \<^verbatim>\<open>repr(s)\<close> for a string: single quotes, unless the text has a single quote and no
  double quote; the quote in use and the backslash are escaped, tab, newline and carriage
  return are written \<^verbatim>\<open>\t \n \r\<close>, other control characters as \<^verbatim>\<open>\xNN\<close>.
\<close>

definition hex_digit :: "nat \<Rightarrow> char" where
  "hex_digit n = ''0123456789abcdef'' ! (n mod 16)"

definition repr_char :: "char \<Rightarrow> char \<Rightarrow> string" where
  "repr_char q c =
     (if c = q \<or> c = CHR 0x5C then [CHR 0x5C, c]
      else if c = CHR 0x09 then [CHR 0x5C, CHR ''t'']
      else if c = CHR 0x0A then [CHR 0x5C, CHR ''n'']
      else if c = CHR 0x0D then [CHR 0x5C, CHR ''r'']
      else if of_char c < (32::nat) \<or> of_char c = (127::nat)
        then [CHR 0x5C, CHR ''x'', hex_digit (of_char c div 16), hex_digit (of_char c)]
      else [c])"

definition repr_str :: "string \<Rightarrow> string" where
  "repr_str s =
     (let q = (if CHR 0x27 \<in> set s \<and> CHR 0x22 \<notin> set s then CHR 0x22 else CHR 0x27)
      in [q] @ concat (map (repr_char q) s) @ [q])"

text \<open>\<^verbatim>\<open>', '.join(parts)\<close>.\<close>

fun join_comma :: "string list \<Rightarrow> string" where
  "join_comma [] = []"
| "join_comma [x] = x"
| "join_comma (x # y # ys) = x @ '', '' @ join_comma (y # ys)"

text \<open>\<^verbatim>\<open>repr(v)\<close> of a decoded value.\<close>

fun py_repr :: "json \<Rightarrow> string"
  and repr_items :: "json list \<Rightarrow> string list"
  and repr_pairs :: "(string \<times> json) list \<Rightarrow> string list" where
  "py_repr JNull = ''None''"
| "py_repr (JBool b) = (if b then ''True'' else ''False'')"
| "py_repr (JInt i) = str_int i"
| "py_repr (JStr s) = repr_str s"
| "py_repr (JList xs) = ''['' @ join_comma (repr_items xs) @ '']''"
| "py_repr (JObj d) = ''{'' @ join_comma (repr_pairs d) @ ''}''"
| "repr_items [] = []"
| "repr_items (x # xs) = py_repr x # repr_items xs"
| "repr_pairs [] = []"
| "repr_pairs ((k, v) # d) = (repr_str k @ '': '' @ py_repr v) # repr_pairs d"

text \<open>\<^verbatim>\<open>str(v)\<close>, which an f-string applies: a string is itself, anything else its repr.\<close>

fun py_str :: "json \<Rightarrow> string" where
  "py_str (JStr s) = s"
| "py_str v = py_repr v"

text \<open>\<^verbatim>\<open>s.upper()\<close> exists on strings only.\<close>

definition upper_char :: "char \<Rightarrow> char" where
  "upper_char c =
     (if (97::nat) \<le> of_char c \<and> of_char c \<le> (122::nat)
      then char_of (of_char c - (32::nat)) else c)"

fun py_upper :: "json \<Rightarrow> exc + string" where
  "py_upper (JStr s) = Inr (map upper_char s)"
| "py_upper _ = Inl AttributeError"

text \<open>\<^verbatim>\<open>s.strip()\<close>: ASCII white space removed at both ends.\<close>

definition is_space :: "char \<Rightarrow> bool" where
  "is_space c = (of_char c = (32::nat) \<or> ((9::nat) \<le> of_char c \<and> of_char c \<le> (13::nat))
                 \<or> ((28::nat) \<le> of_char c \<and> of_char c \<le> (31::nat)))"

definition py_strip :: "string \<Rightarrow> string" where
  "py_strip s = rev (dropWhile is_space (rev (dropWhile is_space s)))"

section \<open>The world the driver runs in\<close>

text \<open>
  What \<^verbatim>\<open>urllib.request.urlopen\<close> does with a request, together with the decoding the
  client applies right after it:
  \<^item> \<open>Response status r\<close>: a response came back; \<open>r\<close> is the result of
    \<^verbatim>\<open>json.loads(resp.read().decode("utf-8"))\<close>, \<open>Inr\<close> the decoded value, \<open>Inl\<close> the
    text of the exception raised by reading or decoding;
  \<^item> \<open>HTTPError code r reason\<close>: \<^verbatim>\<open>urllib.error.HTTPError\<close> with \<^verbatim>\<open>e.code\<close>, the
    result \<open>r\<close> of decoding \<^verbatim>\<open>e.read()\<close> the same way, and \<^verbatim>\<open>e.reason\<close>;
  \<^item> \<open>URLError reason\<close>: \<^verbatim>\<open>urllib.error.URLError\<close> that is not an \<^verbatim>\<open>HTTPError\<close>
    (DNS failure, connection refused, timeout while connecting), with
    \<^verbatim>\<open>str(e.reason)\<close>;
  \<^item> \<open>OtherException msg\<close>: any other exception raised by \<^verbatim>\<open>urlopen\<close> itself (a
    timeout or a reset while the response head is read), with \<^verbatim>\<open>str(e)\<close>.
\<close>

datatype urlopen_outcome =
    Response int "string + json"
  | HTTPError int "string + json" string
  | URLError string
  | OtherException string

text \<open>
  \<^verbatim>\<open>urlopen\<close> returns only responses with a 2xx status and raises \<^verbatim>\<open>HTTPError\<close> for the
  others; \<^verbatim>\<open>http.client\<close> accepts status codes from 100 to 999 only.
\<close>

fun valid_outcome :: "urlopen_outcome \<Rightarrow> bool" where
  "valid_outcome (Response status r) = (200 \<le> status \<and> status < 300)"
| "valid_outcome (HTTPError code r reason) =
     (100 \<le> code \<and> code \<le> 999 \<and> \<not> (200 \<le> code \<and> code < 300))"
| "valid_outcome (URLError reason) = True"
| "valid_outcome (OtherException msg) = True"

text \<open>The failures in which no HTTP response was received.\<close>

fun transport_failure :: "urlopen_outcome \<Rightarrow> bool" where
  "transport_failure (URLError reason) = True"
| "transport_failure (OtherException msg) = True"
| "transport_failure _ = False"

section \<open>HTTP client\<close>

text \<open>
  \<^verbatim>\<open>http_post\<close>, lines 44-64: the \<^verbatim>\<open>try\<close> body returns the status and the decoded
  body; an exception raised by the decoding of a received response is not an
  \<^verbatim>\<open>HTTPError\<close> or \<^verbatim>\<open>URLError\<close> and falls to the last handler.
\<close>

fun http_post_result :: "urlopen_outcome \<Rightarrow> int \<times> json" where
  "http_post_result (Response status (Inr body)) = (status, body)"
| "http_post_result (Response status (Inl msg)) = (0, JObj [(''error'', JStr msg)])"
| "http_post_result (HTTPError code (Inr err) reason) = (code, err)"
| "http_post_result (HTTPError code (Inl msg) reason) = (code, JObj [(''raw'', JStr reason)])"
| "http_post_result (URLError reason) = (0, JObj [(''error'', JStr reason)])"
| "http_post_result (OtherException msg) = (0, JObj [(''error'', JStr msg)])"

text \<open>
  \<^verbatim>\<open>http_get\<close>, lines 67-80: no handler for \<^verbatim>\<open>URLError\<close>, so the last handler reports
  \<^verbatim>\<open>str(e)\<close>, which for a \<^verbatim>\<open>URLError\<close> is \<^verbatim>\<open><urlopen error REASON>\<close>.
\<close>

fun http_get_result :: "urlopen_outcome \<Rightarrow> int \<times> json" where
  "http_get_result (Response status (Inr body)) = (status, body)"
| "http_get_result (Response status (Inl msg)) = (0, JObj [(''error'', JStr msg)])"
| "http_get_result (HTTPError code (Inr err) reason) = (code, err)"
| "http_get_result (HTTPError code (Inl msg) reason) = (code, JObj [(''raw'', JStr reason)])"
| "http_get_result (URLError reason) =
     (0, JObj [(''error'', JStr (''<urlopen error '' @ reason @ ''>''))])"
| "http_get_result (OtherException msg) = (0, JObj [(''error'', JStr msg)])"

section \<open>Effects\<close>

text \<open>
  A request as \<^verbatim>\<open>urllib.request.Request\<close> is built from it: method, URL, JSON payload
  (none for a GET), headers, and the timeout given to \<^verbatim>\<open>urlopen\<close>.
\<close>

datatype request = Request string string "json option" "(string \<times> string) list" nat

text \<open>The result of running the \<^verbatim>\<open>gh\<close> command line with \<^verbatim>\<open>subprocess.run\<close>.\<close>

datatype gh_outcome =
    Completed
  | CalledProcessError string
  | GhNotFound
  | TimeoutExpired

text \<open>The result of opening and decoding \<^verbatim>\<open>features.json\<close>.\<close>

datatype features_file =
    FileNotFound
  | LoadError string
  | Loaded json

text \<open>
  Everything the run reads from outside. \<open>net n r\<close> is what \<^verbatim>\<open>urlopen\<close> does with
  request \<open>r\<close> when it is the \<open>n\<close>-th request of the run (counted from 0), so an answer
  may depend on everything sent before. \<open>time_now\<close> is \<^verbatim>\<open>int(time.time())\<close> when the
  auth flow starts, \<open>timestamp\<close> the formatted UTC time when \<^verbatim>\<open>main\<close> starts.
\<close>

record env =
  net :: "nat \<Rightarrow> request \<Rightarrow> urlopen_outcome"
  time_now :: int
  timestamp :: string
  codespace_name :: "string option"
  gh_run :: "string list \<Rightarrow> gh_outcome"
  features_json :: features_file
  frontend_isdir :: bool

text \<open>
  What the run does to the outside, in order. Lines written to the diagnostic stream
  (\<^verbatim>\<open>log\<close>) are not events: only the expressions inside a log call that can raise are
  kept in the model. Writing a file and printing are taken to succeed.
\<close>

datatype event =
    Urlopen request
  | Sleep int
  | RunGh "string list"
  | WriteFile string json
  | Stdout json

record st =
  calls :: nat
  trace :: "event list"

definition init_st :: st where
  "init_st = \<lparr>calls = 0, trace = []\<rparr>"

definition emit :: "event \<Rightarrow> st \<Rightarrow> st" where
  "emit e s = s\<lparr>trace := trace s @ [e]\<rparr>"

definition urlopen :: "env \<Rightarrow> request \<Rightarrow> st \<Rightarrow> urlopen_outcome \<times> st" where
  "urlopen E r s = (net E (calls s) r, emit (Urlopen r) (s\<lparr>calls := Suc (calls s)\<rparr>))"

definition post_request :: "string \<Rightarrow> json \<Rightarrow> nat \<Rightarrow> request" where
  "post_request url data timeout =
     Request ''POST'' url (Some data) [(''Content-Type'', ''application/json'')] timeout"

definition get_request :: "string \<Rightarrow> (string \<times> string) list \<Rightarrow> nat \<Rightarrow> request" where
  "get_request url headers timeout = Request ''GET'' url None headers timeout"

definition http_post :: "env \<Rightarrow> string \<Rightarrow> json \<Rightarrow> nat \<Rightarrow> st \<Rightarrow> (int \<times> json) \<times> st" where
  "http_post E url data timeout s =
     (let (out, s') = urlopen E (post_request url data timeout) s
      in (http_post_result out, s'))"

definition http_get ::
  "env \<Rightarrow> string \<Rightarrow> (string \<times> string) list \<Rightarrow> nat \<Rightarrow> st \<Rightarrow> (int \<times> json) \<times> st" where
  "http_get E url headers timeout s =
     (let (out, s') = urlopen E (get_request url headers timeout) s
      in (http_get_result out, s'))"

section \<open>Constants of the driver\<close>

definition BACKEND_URL :: string where
  "BACKEND_URL = ''http://localhost:8000''"

definition FRONTEND_PORT :: int where
  "FRONTEND_PORT = 3000"

definition BROWSER_AGENT_URL :: string where
  "BROWSER_AGENT_URL = ''https://claude-browser-agent.onrender.com''"

definition CREDENTIALS_FILE :: string where
  "CREDENTIALS_FILE = ''qa-test-credentials.json''"

definition RESULTS_FILE :: string where
  "RESULTS_FILE = ''qa-smoke-results.json''"

definition WAKE_RETRIES :: nat where
  "WAKE_RETRIES = 4"

definition WAKE_DELAYS :: "int list" where
  "WAKE_DELAYS = [10, 15, 15, 15]"

section \<open>Auth flow\<close>

text \<open>A status outside \<open>[200, 300)\<close>, the test \<^verbatim>\<open>status < 200 or status >= 300\<close>.\<close>

definition not_2xx :: "int \<Rightarrow> bool" where
  "not_2xx status = (status < 200 \<or> status \<ge> 300)"

text \<open>\<^verbatim>\<open>result["steps"][name] = v\<close>: the steps dict is the one stored in the result.\<close>

definition steps_of :: "dict \<Rightarrow> dict" where
  "steps_of result = (case map_of result ''steps'' of Some (JObj d) \<Rightarrow> d | _ \<Rightarrow> [])"

definition set_step :: "string \<Rightarrow> json \<Rightarrow> dict \<Rightarrow> dict" where
  "set_step name v result =
     AList.update ''steps'' (JObj (AList.update name v (steps_of result))) result"

text \<open>
  Lines 124-129: the four lookups joined by \<^verbatim>\<open>or\<close>. The first lookup already needs the
  body to be a dict.
\<close>

fun extract_token :: "json \<Rightarrow> exc + json" where
  "extract_token (JObj d) =
     Inr (py_or (dict_get d ''token'' JNull)
           (py_or (dict_get d ''access_token'' JNull)
             (py_or (dict_get d ''idToken'' JNull)
               (dict_get d ''id_token'' JNull))))"
| "extract_token _ = Inl AttributeError"

text \<open>\<^verbatim>\<open>list(body.keys())\<close>.\<close>

fun dict_keys :: "json \<Rightarrow> exc + json" where
  "dict_keys (JObj d) = Inr (JList (map (\<lambda>kv. JStr (fst kv)) d))"
| "dict_keys _ = Inl AttributeError"

text \<open>The address and the three requests of the flow.\<close>

definition auth_email :: "env \<Rightarrow> string" where
  "auth_email E = ''qa-tester-'' @ str_int (time_now E) @ ''@test.example.com''"

definition auth_password :: string where
  "auth_password = ''TestPass123!''"

definition register_payload :: "string \<Rightarrow> string \<Rightarrow> json" where
  "register_payload email password =
     JObj [(''email'', JStr email), (''password'', JStr password),
           (''name'', JStr ''QA Tester''), (''display_name'', JStr ''QA Tester'')]"

definition login_payload :: "string \<Rightarrow> string \<Rightarrow> json" where
  "login_payload email password = JObj [(''email'', JStr email), (''password'', JStr password)]"

definition bearer :: "json \<Rightarrow> (string \<times> string) list" where
  "bearer token = [(''Authorization'', ''Bearer '' @ py_str token)]"

text \<open>Lines 136-153, entered with the token in hand.\<close>

definition verify_step :: "env \<Rightarrow> json \<Rightarrow> string \<Rightarrow> string \<Rightarrow> dict \<Rightarrow> st \<Rightarrow> dict \<times> st" where
  "verify_step E token email password result s =
     (let ((status, body), s1) =
            http_get E (BACKEND_URL @ ''/api/users/me'') (bearer token) 10 s;
          result1 = set_step ''verify_token'' (JObj [(''status'', JInt status)]) result;
          result2 = AList.update ''success'' (JBool True) result1;
          result3 = AList.update ''token_verified'' (JBool (200 \<le> status \<and> status < 300)) result2;
          s2 = emit (WriteFile CREDENTIALS_FILE
                 (JObj [(''email'', JStr email), (''password'', JStr password)])) s1
      in (result3, s2))"

text \<open>Lines 111-134, entered after a successful registration.\<close>

definition login_step :: "env \<Rightarrow> string \<Rightarrow> string \<Rightarrow> dict \<Rightarrow> st \<Rightarrow> (exc + dict) \<times> st" where
  "login_step E email password result s =
     (let ((status, body), s1) =
            http_post E (BACKEND_URL @ ''/api/auth/login'') (login_payload email password) 30 s;
          result1 = set_step ''login'' (JObj [(''status'', JInt status)]) result
      in if not_2xx status then
           (Inr (AList.update ''error''
                   (JStr (''Login failed (HTTP '' @ str_int status @ '')'')) result1), s1)
         else
           (case extract_token body of
              Inl e \<Rightarrow> (Inl e, s1)
            | Inr token \<Rightarrow>
                if \<not> truthy token then
                  (case dict_keys body of
                     Inl e \<Rightarrow> (Inl e, s1)
                   | Inr keys \<Rightarrow>
                       (Inr (AList.update ''error''
                               (JStr (''Login response has no token field. Keys: '' @ py_str keys))
                               result1), s1))
                else
                  (let (result2, s2) = verify_step E token email password result1 s1
                   in (Inr result2, s2))))"

text \<open>\<^verbatim>\<open>run_auth_test\<close>, lines 86-153.\<close>

definition run_auth_test :: "env \<Rightarrow> st \<Rightarrow> (exc + dict) \<times> st" where
  "run_auth_test E s =
     (let email = auth_email E;
          password = auth_password;
          result = [(''success'', JBool False), (''email'', JStr email),
                    (''password'', JStr password), (''steps'', JObj [])];
          ((status, body), s1) =
            http_post E (BACKEND_URL @ ''/api/auth/register'')
              (register_payload email password) 30 s;
          result1 = set_step ''register''
                      (JObj [(''status'', JInt status), (''response'', body)]) result
      in if not_2xx status then
           (Inr (AList.update ''error''
                   (JStr (''Registration failed (HTTP '' @ str_int status @ '')'')) result1), s1)
         else login_step E email password result1 s1)"

section \<open>Environment publisher\<close>

text \<open>
  \<^verbatim>\<open>make_ports_public\<close>, lines 159-184. \<^verbatim>\<open>not codespace\<close> holds for a variable that is
  unset or empty. The three handlers cover the outcomes of \<^verbatim>\<open>subprocess.run\<close> listed
  in \<open>gh_outcome\<close>.
\<close>

definition make_ports_public :: "env \<Rightarrow> st \<Rightarrow> dict \<times> st" where
  "make_ports_public E s =
     (case codespace_name E of
        None \<Rightarrow>
          ([(''success'', JBool False),
            (''error'', JStr ''CODESPACE_NAME env var not set -- not in a codespace?'')], s)
      | Some codespace \<Rightarrow>
          if codespace = [] then
            ([(''success'', JBool False),
              (''error'', JStr ''CODESPACE_NAME env var not set -- not in a codespace?'')], s)
          else
            (let args = [''gh'', ''codespace'', ''ports'', ''visibility'', ''8000:public'',
                         str_int FRONTEND_PORT @ '':public'', ''-c'', codespace];
                 s1 = emit (RunGh args) s
             in case gh_run E args of
                  CalledProcessError stderr \<Rightarrow>
                    ([(''success'', JBool False),
                      (''error'', JStr (''gh ports failed: '' @ py_strip stderr))], s1)
                | GhNotFound \<Rightarrow>
                    ([(''success'', JBool False), (''error'', JStr ''gh CLI not found'')], s1)
                | TimeoutExpired \<Rightarrow>
                    ([(''success'', JBool False), (''error'', JStr ''gh ports timed out'')], s1)
                | Completed \<Rightarrow>
                    (let frontend_url = ''https://'' @ codespace @ ''-'' @ str_int FRONTEND_PORT
                                         @ ''.app.github.dev'';
                         login_url = frontend_url @ ''/login''
                     in ([(''success'', JBool True), (''frontend_url'', JStr login_url)], s1))))"

section \<open>Feature-list loader\<close>

text \<open>\<^verbatim>\<open>x[k]\<close> with a string key: a dict looks the key up, nothing else accepts it.\<close>

fun py_item :: "json \<Rightarrow> string \<Rightarrow> exc + json" where
  "py_item (JObj d) k = dict_item d k"
| "py_item _ k = Inl TypeError"

text \<open>
  The comprehension of lines 195-199 over the entries: for each entry the condition
  \<^verbatim>\<open>feat.get("status") in ("completed", "done")\<close> first, then \<^verbatim>\<open>feat["name"]\<close> when it
  holds. The first exception ends the whole comprehension.
\<close>

fun feature_names :: "json list \<Rightarrow> exc + json list" where
  "feature_names [] = Inr []"
| "feature_names (feat # rest) =
     (case py_get feat ''status'' JNull of
        Inl e \<Rightarrow> Inl e
      | Inr status \<Rightarrow>
          if status = JStr ''completed'' \<or> status = JStr ''done'' then
            (case py_item feat ''name'' of
               Inl e \<Rightarrow> Inl e
             | Inr name \<Rightarrow>
                 (case feature_names rest of
                    Inl e \<Rightarrow> Inl e
                  | Inr names \<Rightarrow> Inr (name # names)))
          else feature_names rest)"

definition completed_features :: "json \<Rightarrow> exc + json list" where
  "completed_features data =
     (case py_get data ''features'' (JList []) of
        Inl e \<Rightarrow> Inl e
      | Inr fs \<Rightarrow> (case py_iter fs of Inl e \<Rightarrow> Inl e | Inr entries \<Rightarrow> feature_names entries))"

text \<open>
  \<^verbatim>\<open>read_features\<close>, lines 190-207: \<^verbatim>\<open>FileNotFoundError\<close> and every other exception
  of the \<^verbatim>\<open>try\<close> body end in \<^verbatim>\<open>return []\<close>.
\<close>

definition read_features :: "env \<Rightarrow> json list" where
  "read_features E =
     (case features_json E of
        FileNotFound \<Rightarrow> []
      | LoadError msg \<Rightarrow> []
      | Loaded data \<Rightarrow> (case completed_features data of Inl e \<Rightarrow> [] | Inr names \<Rightarrow> names))"

section \<open>Remote browser-agent invoker\<close>

text \<open>
  \<^verbatim>\<open>x[:80]\<close>: strings and lists can be sliced; \<^verbatim>\<open>None\<close>, numbers and booleans raise
  \<^verbatim>\<open>TypeError\<close>, and so does a dict (a \<^verbatim>\<open>KeyError\<close> from Python 3.12 on).
\<close>

fun py_slice80 :: "json \<Rightarrow> exc + json" where
  "py_slice80 (JStr s) = Inr (JStr (take 80 s))"
| "py_slice80 (JList xs) = Inr (JList (take 80 xs))"
| "py_slice80 _ = Inl TypeError"

text \<open>Lines 259-261: what the log line of each test evaluates.\<close>

fun log_tests :: "json list \<Rightarrow> exc + unit" where
  "log_tests [] = Inr ()"
| "log_tests (t # ts) =
     (case py_get t ''status'' JNull of
        Inl e \<Rightarrow> Inl e
      | Inr status \<Rightarrow>
          (case py_get t ''feature'' JNull of
             Inl e \<Rightarrow> Inl e
           | Inr feature \<Rightarrow>
               (case py_get t ''notes'' (JStr []) of
                  Inl e \<Rightarrow> Inl e
                | Inr notes \<Rightarrow>
                    (case py_slice80 notes of Inl e \<Rightarrow> Inl e | Inr shown \<Rightarrow> log_tests ts))))"

text \<open>Lines 258-265.\<close>

definition log_results :: "dict \<Rightarrow> exc + unit" where
  "log_results smoke =
     (case (if truthy (dict_get smoke ''tests'' JNull) then
              (case dict_item smoke ''tests'' of
                 Inl e \<Rightarrow> Inl e
               | Inr tests \<Rightarrow>
                   (case py_iter tests of Inl e \<Rightarrow> Inl e | Inr ts \<Rightarrow> log_tests ts))
            else Inr ()) of
        Inl e \<Rightarrow> Inl e
      | Inr u \<Rightarrow>
          if truthy (dict_get smoke ''critical_issues'' JNull) then
            (case dict_item smoke ''critical_issues'' of
               Inl e \<Rightarrow> Inl e
             | Inr issues \<Rightarrow> (case py_iter issues of Inl e \<Rightarrow> Inl e | Inr xs \<Rightarrow> Inr ()))
          else Inr ())"

text \<open>
  Lines 250-267, the 2xx branch. When the wrapper key is missing \<^verbatim>\<open>smoke\<close> is the body
  itself, so the assignment to \<^verbatim>\<open>service_reachable\<close> is seen through \<^verbatim>\<open>body\<close> too:
  \<open>body1\<close> is the body as line 253 reads it. Assigning a key needs a dict
  (\<^verbatim>\<open>TypeError\<close> otherwise).
\<close>

definition has_key :: "dict \<Rightarrow> string \<Rightarrow> bool" where
  "has_key d k = (map_of d k \<noteq> None)"

definition normalize_smoke :: "json \<Rightarrow> exc + dict" where
  "normalize_smoke body =
     (case body of
        JObj bd \<Rightarrow>
          (case dict_get bd ''smokeTestResults'' body of
             JObj inner \<Rightarrow>
               (let smoke = AList.update ''service_reachable'' (JBool True) inner;
                    body1 = (if has_key bd ''smokeTestResults'' then bd else smoke);
                    smoke1 = (if has_key body1 ''screenshotUrls'' \<and> \<not> has_key smoke ''screenshotUrls''
                              then AList.update ''screenshotUrls''
                                     (dict_get body1 ''screenshotUrls'' JNull) smoke
                              else smoke)
                in case log_results smoke1 of Inl e \<Rightarrow> Inl e | Inr u \<Rightarrow> Inr smoke1)
           | _ \<Rightarrow> Inl TypeError)
      | _ \<Rightarrow> Inl AttributeError)"

text \<open>Lines 233-267: what the invoker makes of the client's answer.\<close>

definition smoke_of_answer :: "int \<Rightarrow> json \<Rightarrow> exc + dict" where
  "smoke_of_answer status body =
     (if status = 0 then
        (case py_get body ''error'' JNull of
           Inl e \<Rightarrow> Inl e
         | Inr err \<Rightarrow>
             Inr [(''overall'', JStr ''skipped''),
                  (''reason'', JStr (''Browser agent unreachable: '' @ py_str err)),
                  (''service_reachable'', JBool False)])
      else if not_2xx status then
        Inr [(''overall'', JStr ''error''),
             (''error'', JStr (''Browser agent returned HTTP '' @ str_int status)),
             (''detail'', body),
             (''service_reachable'', JBool True)]
      else normalize_smoke body)"

definition smoke_payload :: "json \<Rightarrow> json \<Rightarrow> json \<Rightarrow> json list \<Rightarrow> json" where
  "smoke_payload frontend_url email password features =
     JObj [(''url'', frontend_url),
           (''credentials'', JObj [(''email'', email), (''password'', password)]),
           (''features'', JList features),
           (''maxIterations'', JInt 15),
           (''timeout'', JInt 120000),
           (''uploadScreenshots'', JBool True)]"

text \<open>\<^verbatim>\<open>call_browser_agent\<close>, lines 213-267.\<close>

definition call_browser_agent ::
  "env \<Rightarrow> json \<Rightarrow> json \<Rightarrow> json \<Rightarrow> json list \<Rightarrow> st \<Rightarrow> (exc + dict) \<times> st" where
  "call_browser_agent E frontend_url email password features s =
     (let ((status, body), s1) =
            http_post E (BROWSER_AGENT_URL @ ''/smoke-test'')
              (smoke_payload frontend_url email password features) 180 s
      in (smoke_of_answer status body, s1))"

section \<open>Pipeline orchestrator\<close>

text \<open>
  The connectivity check, lines 289-303: the loop over \<^verbatim>\<open>range(WAKE_RETRIES)\<close>, as a
  recursion over the attempts still to make. \<open>Inr True\<close> is the \<^verbatim>\<open>break\<close> with
  \<^verbatim>\<open>browser_reachable = True\<close>, \<open>Inr False\<close> the end of the range.
\<close>

fun wake_loop :: "env \<Rightarrow> nat list \<Rightarrow> st \<Rightarrow> (exc + bool) \<times> st" where
  "wake_loop E [] s = (Inr False, s)"
| "wake_loop E (attempt # rest) s =
     (let ((status, body), s1) = http_get E (BROWSER_AGENT_URL @ ''/'') [] 30 s
      in if status > 0 then (Inr True, s1)
         else
           (case py_get body ''error'' JNull of
              Inl e \<Rightarrow> (Inl e, s1)
            | Inr err \<Rightarrow>
                if int attempt < int WAKE_RETRIES - 1 then
                  (if attempt < length WAKE_DELAYS
                   then wake_loop E rest (emit (Sleep (WAKE_DELAYS ! attempt)) s1)
                   else (Inl IndexError, s1))
                else wake_loop E rest s1))"

text \<open>
  Lines 321-369: the stages after the auth flow. \<open>exit_code\<close> comes in with the value
  \<^verbatim>\<open>main\<close> gave it at line 283 and goes out unchanged on every path that does not
  assign it.
\<close>

definition browser_stage ::
  "env \<Rightarrow> bool \<Rightarrow> int \<Rightarrow> dict \<Rightarrow> dict \<Rightarrow> st \<Rightarrow> (exc + dict \<times> int) \<times> st" where
  "browser_stage E skip_browser exit_code auth output s =
     (case dict_item auth ''success'' of
        Inl e \<Rightarrow> (Inl e, s)
      | Inr success \<Rightarrow>
          if \<not> truthy success then
            (Inr (AList.update ''browser_smoke_test''
                    (JObj [(''overall'', JStr ''error''),
                           (''error'', JStr (''Auth failed: '' @ py_str (dict_get auth ''error'' JNull)
                                             @ '' -- no valid credentials for browser test''))])
                    output, 1), s)
          else
            (case dict_item auth ''email'' of
               Inl e \<Rightarrow> (Inl e, s)
             | Inr email \<Rightarrow>
                 (case dict_item auth ''password'' of
                    Inl e \<Rightarrow> (Inl e, s)
                  | Inr password \<Rightarrow>
                      if \<not> frontend_isdir E then
                        (Inr (AList.update ''browser_smoke_test''
                                (JObj [(''overall'', JStr ''not_applicable'')]) output, exit_code), s)
                      else
                        (let (ports, s1) = make_ports_public E s
                         in case dict_item ports ''success'' of
                              Inl e \<Rightarrow> (Inl e, s1)
                            | Inr ok \<Rightarrow>
                                if \<not> truthy ok then
                                  (case dict_item ports ''error'' of
                                     Inl e \<Rightarrow> (Inl e, s1)
                                   | Inr perr \<Rightarrow>
                                       (Inr (AList.update ''browser_smoke_test''
                                               (JObj [(''overall'', JStr ''error''), (''error'', perr)])
                                               output, 2), s1))
                                else
                                  (let features = read_features E
                                   in if skip_browser then (Inr (output, exit_code), s1)
                                      else
                                        (case dict_item ports ''frontend_url'' of
                                           Inl e \<Rightarrow> (Inl e, s1)
                                         | Inr url \<Rightarrow>
                                             (case call_browser_agent E url email password features s1 of
                                                (Inl e, s2) \<Rightarrow> (Inl e, s2)
                                              | (Inr smoke, s2) \<Rightarrow>
                                                  (let overall = dict_get smoke ''overall'' (JStr ''unknown'')
                                                   in (Inr (AList.update ''browser_smoke_test'' (JObj smoke) output,
                                                            if overall = JStr ''pass'' then 0
                                                            else if overall = JStr ''skipped'' then 2
                                                            else 1), s2)))))))))"

text \<open>
  Lines 371-387: the report is written to the results file; the summary line then needs
  \<^verbatim>\<open>.upper()\<close> of the browser stage's \<^verbatim>\<open>overall\<close>; the report is printed last.
\<close>

definition finish :: "dict \<Rightarrow> dict \<Rightarrow> int \<Rightarrow> st \<Rightarrow> (exc + int) \<times> st" where
  "finish auth output exit_code s =
     (let output1 = AList.update ''exit_code'' (JInt exit_code) output;
          s1 = emit (WriteFile RESULTS_FILE (JObj output1)) s
      in case dict_item auth ''success'' of
           Inl e \<Rightarrow> (Inl e, s1)
         | Inr success \<Rightarrow>
             (case dict_item output1 ''browser_smoke_test'' of
                Inl e \<Rightarrow> (Inl e, s1)
              | Inr stage \<Rightarrow>
                  (case py_get stage ''overall'' (JStr ''unknown'') of
                     Inl e \<Rightarrow> (Inl e, s1)
                   | Inr overall_browser \<Rightarrow>
                       (case py_upper overall_browser of
                          Inl e \<Rightarrow> (Inl e, s1)
                        | Inr shown \<Rightarrow> (Inr exit_code, emit (Stdout (JObj output1)) s1)))))"

text \<open>\<^verbatim>\<open>main\<close>, lines 273-387.\<close>

definition main :: "env \<Rightarrow> st \<Rightarrow> (exc + int) \<times> st" where
  "main E s =
     (let output = [(''timestamp'', JStr (timestamp E)), (''auth'', JNull),
                    (''browser_smoke_test'', JNull)];
          exit_code = 0
      in case wake_loop E [0..<WAKE_RETRIES] s of
           (Inl e, s1) \<Rightarrow> (Inl e, s1)
         | (Inr browser_reachable, s1) \<Rightarrow>
             (let output1 =
                    (if \<not> browser_reachable then
                       AList.update ''browser_smoke_test''
                         (JObj [(''overall'', JStr ''error''),
                                (''reason'', JStr (''Browser agent unreachable after ''
                                                   @ str_int (int WAKE_RETRIES) @ '' attempts''))])
                         output
                     else output);
                  skip_browser = (\<not> browser_reachable)
              in case run_auth_test E s1 of
                   (Inl e, s2) \<Rightarrow> (Inl e, s2)
                 | (Inr auth, s2) \<Rightarrow>
                     (case browser_stage E skip_browser exit_code auth
                             (AList.update ''auth'' (JObj auth) output1) s2 of
                        (Inl e, s3) \<Rightarrow> (Inl e, s3)
                      | (Inr (output3, exit_code1), s3) \<Rightarrow> finish auth output3 exit_code1 s3)))"

text \<open>
  \<^verbatim>\<open>sys.exit(main())\<close>, line 391: the process ends with the value \<^verbatim>\<open>main\<close> returns; an
  exception that leaves \<^verbatim>\<open>main\<close> ends the interpreter with status 1.
\<close>

definition process_exit :: "env \<Rightarrow> int" where
  "process_exit E = (case fst (main E init_st) of Inl e \<Rightarrow> 1 | Inr code \<Rightarrow> code)"

section \<open>The fixture's registration endpoint\<close>

text \<open>
  \<^verbatim>\<open>register\<close> of \<^verbatim>\<open>src/fixture/routers/auth.py\<close>, lines 38-58, on the table of users as
  a list of rows. \<^verbatim>\<open>hash_password\<close> and \<^verbatim>\<open>create_token\<close> live in a module that is
  not part of the sources at hand and the row id is given by the database, so the three
  are parameters. The body is one that has passed the validation of the request model.
  A handler that raises \<^verbatim>\<open>HTTPException\<close> answers with that status; one that returns
  answers 200.
\<close>

record user =
  user_id :: int
  user_email :: string
  user_hashed_password :: string
  user_display_name :: string

record register_request =
  req_email :: string
  req_password :: string
  req_name :: "string option"
  req_display_name :: "string option"

datatype handler_result = HTTPException int string | Returned user string

definition str_or :: "string option \<Rightarrow> string \<Rightarrow> string" where
  "str_or a b = (case a of None \<Rightarrow> b | Some x \<Rightarrow> if x = [] then b else x)"

definition register ::
  "(string \<Rightarrow> string) \<Rightarrow> (int \<Rightarrow> string \<Rightarrow> string) \<Rightarrow> (user list \<Rightarrow> int) \<Rightarrow>
   register_request \<Rightarrow> user list \<Rightarrow> handler_result \<times> user list" where
  "register hash_password create_token new_id body db =
     (case find (\<lambda>u. user_email u = req_email body) db of
        Some existing \<Rightarrow> (HTTPException 409 ''Email already registered'', db)
      | None \<Rightarrow>
          (let display = str_or (req_display_name body)
                           (str_or (req_name body)
                              (takeWhile (\<lambda>c. c \<noteq> CHR ''@'') (req_email body)));
               u = \<lparr>user_id = new_id db, user_email = req_email body,
                    user_hashed_password = hash_password (req_password body),
                    user_display_name = display\<rparr>
           in (Returned u (create_token (user_id u) (user_email u)), db @ [u])))"

definition status_of :: "handler_result \<Rightarrow> int" where
  "status_of r = (case r of HTTPException code detail \<Rightarrow> code | Returned u t \<Rightarrow> 200)"

section \<open>Vocabulary of the statements\<close>

text \<open>
  The requests of the auth flow, and the answers of the HTTP client to them when the
  flow starts in state \<open>s\<close>: the registration is request number \<open>calls s\<close>, the login
  the next one, the token check the one after.
\<close>

definition register_request :: "env \<Rightarrow> request" where
  "register_request E =
     post_request (BACKEND_URL @ ''/api/auth/register'')
       (register_payload (auth_email E) auth_password) 30"

definition login_request :: "env \<Rightarrow> request" where
  "login_request E =
     post_request (BACKEND_URL @ ''/api/auth/login'')
       (login_payload (auth_email E) auth_password) 30"

definition verify_request :: "json \<Rightarrow> request" where
  "verify_request token = get_request (BACKEND_URL @ ''/api/users/me'') (bearer token) 10"

definition register_answer :: "env \<Rightarrow> st \<Rightarrow> int \<times> json" where
  "register_answer E s = http_post_result (net E (calls s) (register_request E))"

definition login_answer :: "env \<Rightarrow> st \<Rightarrow> int \<times> json" where
  "login_answer E s = http_post_result (net E (Suc (calls s)) (login_request E))"

definition verify_answer :: "env \<Rightarrow> st \<Rightarrow> json \<Rightarrow> int \<times> json" where
  "verify_answer E s token =
     http_get_result (net E (Suc (Suc (calls s))) (verify_request token))"

text \<open>The state after the requests \<open>rs\<close> have been sent, in this order.\<close>

definition called :: "request list \<Rightarrow> st \<Rightarrow> st" where
  "called rs s = s\<lparr>calls := calls s + length rs, trace := trace s @ map Urlopen rs\<rparr>"

text \<open>
  The four field names of the token, in the order of the specification, and the first
  of their values that is not empty.
\<close>

definition token_fields :: "string list" where
  "token_fields = [''token'', ''access_token'', ''idToken'', ''id_token'']"

definition first_nonempty :: "dict \<Rightarrow> json option" where
  "first_nonempty d = find truthy (map (\<lambda>k. dict_get d k JNull) token_fields)"

text \<open>The entry of a step in the outcome of the auth flow.\<close>

definition step_entry :: "dict \<Rightarrow> string \<Rightarrow> json option" where
  "step_entry auth name = map_of (steps_of auth) name"

text \<open>
  A StepResult as the specification has it: an entry with both a status code and a
  response payload.
\<close>

definition is_step_result :: "json option \<Rightarrow> bool" where
  "is_step_result e =
     (case e of Some (JObj d) \<Rightarrow> has_key d ''status'' \<and> has_key d ''response'' | _ \<Rightarrow> False)"

text \<open>The value a call returned; the empty dict stands for a call that raised.\<close>

definition the_outcome :: "exc + dict \<Rightarrow> dict" where
  "the_outcome r = (case r of Inl e \<Rightarrow> [] | Inr d \<Rightarrow> d)"

text \<open>The report and exit code a stage returned; a stage that raised has none.\<close>

definition the_pair :: "exc + dict \<times> int \<Rightarrow> dict \<times> int" where
  "the_pair r = (case r of Inl e \<Rightarrow> ([], - 1) | Inr p \<Rightarrow> p)"

subsection \<open>Concrete worlds\<close>

text \<open>
  A world that answers the \<open>n\<close>-th request with the \<open>n\<close>-th outcome of a list (refusing
  the connection once the list is used up), inside a codespace with a working \<^verbatim>\<open>gh\<close>, a
  frontend directory and no features file.
\<close>

definition answers :: "urlopen_outcome list \<Rightarrow> nat \<Rightarrow> request \<Rightarrow> urlopen_outcome" where
  "answers outs n r = (if n < length outs then outs ! n else URLError ''Connection refused'')"

definition world :: "urlopen_outcome list \<Rightarrow> env" where
  "world outs =
     \<lparr>net = answers outs, time_now = 1700000000, timestamp = ''2026-01-01T00:00:00Z'',
      codespace_name = Some ''qa-space'', gh_run = (\<lambda>args. Completed),
      features_json = FileNotFound, frontend_isdir = True\<rparr>"

definition ok_token :: urlopen_outcome where
  "ok_token = Response 200 (Inr (JObj [(''user'', JObj [(''id'', JInt 1)]),
                                      (''token'', JStr ''t-1'')]))"

definition ok_two_tokens :: urlopen_outcome where
  "ok_two_tokens = Response 200 (Inr (JObj [(''access_token'', JStr ''a-1''),
                                           (''token'', JStr ''t-1'')]))"

definition ok_no_token :: urlopen_outcome where
  "ok_no_token = Response 200 (Inr (JObj [(''user'', JStr ''qa''), (''token'', JStr [])]))"

definition conflict :: urlopen_outcome where
  "conflict = HTTPError 409 (Inr (JObj [(''detail'', JStr ''Email already registered'')]))
                ''Conflict''"

definition server_error :: urlopen_outcome where
  "server_error = HTTPError 500 (Inl ''Expecting value: line 1 column 1 (char 0)'')
                    ''Internal Server Error''"

definition refused :: urlopen_outcome where
  "refused = URLError ''[Errno 111] Connection refused''"

definition awake :: urlopen_outcome where
  "awake = Response 200 (Inr (JObj [(''status'', JStr ''ok'')]))"

subsection \<open>The report\<close>

text \<open>The report as lines 278-319 leave it, before the stages after the auth flow.\<close>

definition report_so_far :: "env \<Rightarrow> bool \<Rightarrow> dict \<Rightarrow> dict" where
  "report_so_far E reach auth =
     AList.update ''auth'' (JObj auth)
       (if \<not> reach then
          AList.update ''browser_smoke_test''
            (JObj [(''overall'', JStr ''error''),
                   (''reason'', JStr (''Browser agent unreachable after ''
                                      @ str_int (int WAKE_RETRIES) @ '' attempts''))])
            [(''timestamp'', JStr (timestamp E)), (''auth'', JNull),
             (''browser_smoke_test'', JNull)]
        else [(''timestamp'', JStr (timestamp E)), (''auth'', JNull),
              (''browser_smoke_test'', JNull)])"

text \<open>The report printed last, when the last event of a run is a printed JSON object.\<close>

definition printed_report :: "st \<Rightarrow> dict" where
  "printed_report s = (case rev (trace s) of Stdout (JObj r) # earlier \<Rightarrow> r | _ \<Rightarrow> [])"

text \<open>A field that is present and not \<^verbatim>\<open>None\<close>.\<close>

definition populated :: "dict \<Rightarrow> string \<Rightarrow> bool" where
  "populated r k = (case map_of r k of None \<Rightarrow> False | Some v \<Rightarrow> v \<noteq> JNull)"

definition complete_report :: "dict \<Rightarrow> bool" where
  "complete_report r =
     (populated r ''timestamp'' \<and> populated r ''auth''
      \<and> populated r ''browser_smoke_test'' \<and> populated r ''exit_code'')"

text \<open>
  The run ended by printing a complete report, and the same report was written to the
  results file before.
\<close>

definition report_emitted :: "st \<Rightarrow> bool" where
  "report_emitted s =
     (case rev (trace s) of
        Stdout (JObj r) # earlier \<Rightarrow>
          WriteFile RESULTS_FILE (JObj r) \<in> set earlier \<and> complete_report r
      | _ \<Rightarrow> False)"

subsection \<open>The features file\<close>

text \<open>
  An entry counts as completed when its status field is \<open>completed\<close> or \<open>done\<close>; the
  entries of a features file have the documented shape when each is an object and each
  completed one has a name.
\<close>

definition is_completed :: "json \<Rightarrow> bool" where
  "is_completed e =
     (py_get e ''status'' JNull = Inr (JStr ''completed'')
      \<or> py_get e ''status'' JNull = Inr (JStr ''done''))"

definition entry_name :: "json \<Rightarrow> json" where
  "entry_name e = (case py_item e ''name'' of Inl x \<Rightarrow> JNull | Inr n \<Rightarrow> n)"

definition entry_ok :: "json \<Rightarrow> bool" where
  "entry_ok e =
     (case e of JObj f \<Rightarrow> (if is_completed e then has_key f ''name'' else True) | _ \<Rightarrow> False)"

definition example_features :: json where
  "example_features =
     JObj [(''features'',
            JList [JObj [(''name'', JStr ''X''), (''status'', JStr ''completed'')],
                   JObj [(''name'', JStr ''Y''), (''status'', JStr ''todo'')]])]"

subsection \<open>The connectivity check\<close>

text \<open>
  The request of the check and the status the client returns for it at attempt \<open>i\<close>
  (counted from 0) when the check starts in state \<open>s\<close>.
\<close>

definition probe_request :: request where
  "probe_request = get_request (BROWSER_AGENT_URL @ ''/'') [] 30"

definition probe_status :: "env \<Rightarrow> st \<Rightarrow> nat \<Rightarrow> int" where
  "probe_status E s i = fst (http_get_result (net E (calls s + i) probe_request))"

text \<open>
  The attempts made: one more than the number of leading unreachable attempts among the
  first three.
\<close>

definition attempts_made :: "env \<Rightarrow> st \<Rightarrow> nat" where
  "attempts_made E s = Suc (length (takeWhile (\<lambda>i. probe_status E s i = 0) [0, 1, 2]))"

text \<open>
  The events of \<open>m\<close> attempts: a request for each, and before every attempt but the
  first the delay that the schedule gives after the attempt before.
\<close>

definition probe_events :: "nat \<Rightarrow> event list" where
  "probe_events m =
     concat (map (\<lambda>i. (if i = 0 then [] else [Sleep (WAKE_DELAYS ! (i - 1))])
                       @ [Urlopen probe_request]) [0..<m])"

fun is_sleep :: "event \<Rightarrow> bool" where
  "is_sleep (Sleep d) = True"
| "is_sleep _ = False"

definition probe_down :: env where
  "probe_down = world [refused, refused, refused, refused, ok_token, ok_token, ok_token]"

subsection \<open>The browser-agent invoker\<close>

definition smoke_request :: "json \<Rightarrow> json \<Rightarrow> json \<Rightarrow> json list \<Rightarrow> request" where
  "smoke_request frontend_url email password features =
     post_request (BROWSER_AGENT_URL @ ''/smoke-test'')
       (smoke_payload frontend_url email password features) 180"

definition smoke_answer ::
  "env \<Rightarrow> st \<Rightarrow> json \<Rightarrow> json \<Rightarrow> json \<Rightarrow> json list \<Rightarrow> int \<times> json" where
  "smoke_answer E s frontend_url email password features =
     http_post_result (net E (calls s) (smoke_request frontend_url email password features))"

text \<open>
  The result as the specification words it: the value under the wrapper key when the
  body has one, else the body; then the reachability flag set, and the screenshot list
  of the top level merged in when the inner object has none.
\<close>

definition unwrapped :: "dict \<Rightarrow> json" where
  "unwrapped outer = (case map_of outer ''smokeTestResults'' of None \<Rightarrow> JObj outer | Some v \<Rightarrow> v)"

definition merged_result :: "dict \<Rightarrow> dict \<Rightarrow> dict" where
  "merged_result outer inner =
     (let r = AList.update ''service_reachable'' (JBool True) inner
      in if has_key outer ''screenshotUrls'' \<and> \<not> has_key inner ''screenshotUrls''
         then AList.update ''screenshotUrls'' (dict_get outer ''screenshotUrls'' JNull) r
         else r)"

text \<open>
  A passing result whose one test has \<^verbatim>\<open>"notes": null\<close>, the body that wraps it, and the
  same result with the notes left out.
\<close>

definition null_notes_inner :: dict where
  "null_notes_inner =
     [(''overall'', JStr ''pass''),
      (''tests'', JList [JObj [(''feature'', JStr ''Login''),
                               (''status'', JStr ''pass''),
                               (''notes'', JNull)]])]"

definition null_notes_body :: dict where
  "null_notes_body = [(''smokeTestResults'', JObj null_notes_inner)]"

definition no_notes_inner :: dict where
  "no_notes_inner =
     [(''overall'', JStr ''pass''),
      (''tests'', JList [JObj [(''feature'', JStr ''Login''),
                               (''status'', JStr ''pass'')]])]"

definition agent_null_notes :: urlopen_outcome where
  "agent_null_notes = Response 200 (Inr (JObj null_notes_body))"

definition agent_pass :: urlopen_outcome where
  "agent_pass =
     Response 200 (Inr (JObj [(''smokeTestResults'',
        JObj [(''overall'', JStr ''pass''),
              (''tests'', JList [JObj [(''feature'', JStr ''Login''),
                                       (''status'', JStr ''pass''),
                                       (''notes'', JStr ''signed in'')]])]),
        (''screenshotUrls'', JList [JStr ''https://shots.example.com/1.png''])]))"

definition qa_url :: json where
  "qa_url = JStr ''https://qa-space-3000.app.github.dev/login''"

definition qa_email :: json where
  "qa_email = JStr ''qa-tester-1700000000@test.example.com''"

definition qa_password :: json where
  "qa_password = JStr ''TestPass123!''"

definition notes_null_run :: env where
  "notes_null_run = world [awake, ok_token, ok_token, ok_token, agent_null_notes]"

definition passing_run :: env where
  "passing_run = world [awake, ok_token, ok_token, ok_token, agent_pass]"

definition conflict_run :: env where
  "conflict_run = world [awake, conflict]"

section \<open>Properties of the auth flow\<close>

lemma http_post_eq:
  "http_post E url data t s =
     (http_post_result (net E (calls s) (post_request url data t)),
      called [post_request url data t] s)"
  by (simp add: http_post_def urlopen_def emit_def called_def)

lemma http_get_eq:
  "http_get E url hs t s =
     (http_get_result (net E (calls s) (get_request url hs t)),
      called [get_request url hs t] s)"
  by (simp add: http_get_def urlopen_def emit_def called_def)

lemma called_called: "called rs (called qs s) = called (qs @ rs) s"
  by (simp add: called_def)

lemma calls_called [simp]: "calls (called rs s) = calls s + length rs"
  by (simp add: called_def)

lemma calls_emit [simp]: "calls (emit e s) = calls s"
  by (simp add: emit_def)

lemma dict_item_update:
  "dict_item (AList.update k v d) k' = (if k' = k then Inr v else dict_item d k')"
  by (simp add: dict_item_def update_conv')

lemma extract_token_first:
  "extract_token (JObj d) =
     Inr (case first_nonempty d of Some t \<Rightarrow> t | None \<Rightarrow> dict_get d ''id_token'' JNull)"
  by (simp add: first_nonempty_def token_fields_def py_or_def)

lemma first_nonempty_truthy: "first_nonempty d = Some t \<Longrightarrow> truthy t"
  unfolding first_nonempty_def by (metis find_Some_iff)

lemma first_nonempty_None:
  "first_nonempty d = None \<Longrightarrow> \<not> truthy (dict_get d ''id_token'' JNull)"
  by (simp add: first_nonempty_def token_fields_def split: if_splits)

lemma extract_token_dict:
  "extract_token body = Inr token \<Longrightarrow> \<exists>d. body = JObj d"
  by (cases body) simp_all

lemma verify_step_eq:
  "verify_step E token email password result s =
     (AList.update ''token_verified''
        (JBool (200 \<le> fst (http_get_result (net E (calls s) (verify_request token)))
                \<and> fst (http_get_result (net E (calls s) (verify_request token))) < 300))
        (AList.update ''success'' (JBool True)
           (set_step ''verify_token''
              (JObj [(''status'', JInt (fst (http_get_result (net E (calls s) (verify_request token)))))])
              result)),
      emit (WriteFile CREDENTIALS_FILE (JObj [(''email'', JStr email), (''password'', JStr password)]))
        (called [verify_request token] s))"
  by (simp add: verify_step_def http_get_eq verify_request_def Let_def split_beta)

text \<open>The four ways in which the flow returns, and the one in which it raises.\<close>

lemma run_auth_test_register_failed:
  assumes "not_2xx (fst (register_answer E s))"
  shows "run_auth_test E s =
     (Inr [(''success'', JBool False), (''email'', JStr (auth_email E)),
           (''password'', JStr auth_password),
           (''steps'', JObj [(''register'', JObj [(''status'', JInt (fst (register_answer E s))),
                                              (''response'', snd (register_answer E s))])]),
           (''error'', JStr (''Registration failed (HTTP ''
                             @ str_int (fst (register_answer E s)) @ '')''))],
      called [register_request E] s)"
  using assms
  by (simp add: run_auth_test_def http_post_eq register_answer_def register_request_def
        Let_def split_beta set_step_def steps_of_def)

lemma run_auth_test_login_failed:
  assumes "\<not> not_2xx (fst (register_answer E s))"
      and "not_2xx (fst (login_answer E s))"
  shows "run_auth_test E s =
     (Inr [(''success'', JBool False), (''email'', JStr (auth_email E)),
           (''password'', JStr auth_password),
           (''steps'', JObj [(''register'', JObj [(''status'', JInt (fst (register_answer E s))),
                                              (''response'', snd (register_answer E s))]),
                           (''login'', JObj [(''status'', JInt (fst (login_answer E s)))])]),
           (''error'', JStr (''Login failed (HTTP '' @ str_int (fst (login_answer E s)) @ '')''))],
      called [register_request E, login_request E] s)"
  using assms
  by (simp add: run_auth_test_def login_step_def http_post_eq
        register_answer_def login_answer_def register_request_def login_request_def
        Let_def split_beta set_step_def steps_of_def called_called)

lemma run_auth_test_no_token:
  assumes "\<not> not_2xx (fst (register_answer E s))"
      and "\<not> not_2xx (fst (login_answer E s))"
      and "snd (login_answer E s) = JObj d"
      and "first_nonempty d = None"
  shows "run_auth_test E s =
     (Inr [(''success'', JBool False), (''email'', JStr (auth_email E)),
           (''password'', JStr auth_password),
           (''steps'', JObj [(''register'', JObj [(''status'', JInt (fst (register_answer E s))),
                                              (''response'', snd (register_answer E s))]),
                           (''login'', JObj [(''status'', JInt (fst (login_answer E s)))])]),
           (''error'', JStr (''Login response has no token field. Keys: ''
                             @ py_repr (JList (map (\<lambda>kv. JStr (fst kv)) d))))],
      called [register_request E, login_request E] s)"
  using assms first_nonempty_None [OF assms(4)]
  by (simp add: run_auth_test_def login_step_def http_post_eq extract_token_first
        register_answer_def login_answer_def register_request_def login_request_def
        Let_def split_beta set_step_def steps_of_def called_called
        del: extract_token.simps)

lemma run_auth_test_ok:
  assumes "\<not> not_2xx (fst (register_answer E s))"
      and "\<not> not_2xx (fst (login_answer E s))"
      and "extract_token (snd (login_answer E s)) = Inr token"
      and "truthy token"
  shows "run_auth_test E s =
     (Inr [(''success'', JBool True), (''email'', JStr (auth_email E)),
           (''password'', JStr auth_password),
           (''steps'', JObj [(''register'', JObj [(''status'', JInt (fst (register_answer E s))),
                                              (''response'', snd (register_answer E s))]),
                           (''login'', JObj [(''status'', JInt (fst (login_answer E s)))]),
                           (''verify_token'', JObj [(''status'', JInt (fst (verify_answer E s token)))])]),
           (''token_verified'', JBool (200 \<le> fst (verify_answer E s token)
                                      \<and> fst (verify_answer E s token) < 300))],
      emit (WriteFile CREDENTIALS_FILE
              (JObj [(''email'', JStr (auth_email E)), (''password'', JStr auth_password)]))
        (called [register_request E, login_request E, verify_request token] s))"
  using assms
  by (simp add: run_auth_test_def login_step_def http_post_eq verify_step_eq
        register_answer_def login_answer_def verify_answer_def
        register_request_def login_request_def
        Let_def split_beta set_step_def steps_of_def called_called)

lemma run_auth_test_raises:
  assumes "\<not> not_2xx (fst (register_answer E s))"
      and "\<not> not_2xx (fst (login_answer E s))"
      and "extract_token (snd (login_answer E s)) = Inl e"
  shows "fst (run_auth_test E s) = Inl e"
  using assms
  by (simp add: run_auth_test_def login_step_def http_post_eq
        register_answer_def login_answer_def register_request_def login_request_def
        Let_def split_beta)


lemma register_twice:
  assumes "req_email again = req_email first"
  shows "fst (register h c n again (snd (register h c n first db))) =
           HTTPException 409 ''Email already registered''"
proof (cases "find (\<lambda>u. user_email u = req_email first) db")
  case None
  then have "find (\<lambda>u. user_email u = req_email first) (db @ [u]) = Some u"
    if "user_email u = req_email first" for u :: user
    using that by (induction db) (auto split: if_splits)
  with None assms show ?thesis
    by (simp add: register_def Let_def)
next
  case (Some u)
  with assms show ?thesis
    by (simp add: register_def)
qed

text \<open>
  C6. A registration answered with a status outside \<open>[200, 300)\<close> ends the flow: the
  outcome has \<open>success = False\<close> and the error text, and the registration is the only
  request that was sent, so no login was attempted. The fixture answers a second
  registration of the same email with 409, a status the client hands on unchanged and
  that is outside \<open>[200, 300)\<close>.
\<close>

theorem registration_failure_stops_flow:
  "(not_2xx (fst (register_answer E s)) \<longrightarrow>
      (\<exists>auth. run_auth_test E s = (Inr auth, called [register_request E] s)
         \<and> dict_item auth ''success'' = Inr (JBool False)
         \<and> dict_item auth ''error'' =
             Inr (JStr (''Registration failed (HTTP ''
                        @ str_int (fst (register_answer E s)) @ '')''))))
   \<and> (req_email again = req_email first \<longrightarrow>
        fst (register h c n again (snd (register h c n first db))) =
          HTTPException 409 ''Email already registered'')
   \<and> status_of (HTTPException 409 detail) = 409
   \<and> fst (http_post_result (HTTPError 409 r reason)) = 409
   \<and> not_2xx 409"
proof -
  have "fst (http_post_result (HTTPError 409 r reason)) = 409"
    by (cases r) simp_all
  then show ?thesis
    by (auto simp: run_auth_test_register_failed register_twice status_of_def not_2xx_def
          dict_item_def)
qed

theorem registration_failure_stops_flow_witness:
  "not_2xx (fst (register_answer (world [conflict]) init_st))
   \<and> (\<exists>auth. run_auth_test (world [conflict]) init_st
               = (Inr auth, called [register_request (world [conflict])] init_st)
         \<and> dict_item auth ''success'' = Inr (JBool False)
         \<and> dict_item auth ''error'' = Inr (JStr ''Registration failed (HTTP 409)''))
   \<and> fst (register (\<lambda>p. p) (\<lambda>i e. e) (\<lambda>db. 1 + int (length db))
            \<lparr>req_email = ''qa@test.example.com'', req_password = ''b'',
             req_name = None, req_display_name = None\<rparr>
            (snd (register (\<lambda>p. p) (\<lambda>i e. e) (\<lambda>db. 1 + int (length db))
                   \<lparr>req_email = ''qa@test.example.com'', req_password = ''a'',
                    req_name = Some ''QA'', req_display_name = None\<rparr> [])))
       = HTTPException 409 ''Email already registered''"
proof -
  have a: "fst (register_answer (world [conflict]) init_st) = 409"
    by code_simp
  have b: "str_int 409 = ''409''"
    by code_simp
  show ?thesis
    using registration_failure_stops_flow
      [of "world [conflict]" init_st
          "\<lparr>req_email = ''qa@test.example.com'', req_password = ''b'',
            req_name = None, req_display_name = None\<rparr>"
          "\<lparr>req_email = ''qa@test.example.com'', req_password = ''a'',
            req_name = Some ''QA'', req_display_name = None\<rparr>"
          "\<lambda>p. p" "\<lambda>i e. e" "\<lambda>db. 1 + int (length db)" "[]"]
    by (simp add: a b not_2xx_def)
qed

text \<open>
  C4. Once registration and login were answered with a 2xx status and the login body
  gave a token, the outcome has \<open>success = True\<close> whatever the token check answers;
  \<open>token_verified\<close> is true exactly when the status of the token check is in
  \<open>[200, 300)\<close>.
\<close>

theorem success_independent_of_verification:
  assumes "\<not> not_2xx (fst (register_answer E s))"
      and "\<not> not_2xx (fst (login_answer E s))"
      and "extract_token (snd (login_answer E s)) = Inr token"
      and "truthy token"
  shows "\<exists>auth s'. run_auth_test E s = (Inr auth, s')
           \<and> dict_item auth ''success'' = Inr (JBool True)
           \<and> dict_item auth ''token_verified'' =
               Inr (JBool (200 \<le> fst (verify_answer E s token)
                           \<and> fst (verify_answer E s token) < 300))
           \<and> s' = emit (WriteFile CREDENTIALS_FILE
                          (JObj [(''email'', JStr (auth_email E)),
                                 (''password'', JStr auth_password)]))
                     (called [register_request E, login_request E, verify_request token] s)"
  by (simp add: run_auth_test_ok [OF assms] dict_item_def)

theorem success_independent_of_verification_witness:
  "\<not> not_2xx (fst (register_answer (world [ok_token, ok_token, server_error]) init_st))
   \<and> \<not> not_2xx (fst (login_answer (world [ok_token, ok_token, server_error]) init_st))
   \<and> extract_token (snd (login_answer (world [ok_token, ok_token, server_error]) init_st))
       = Inr (JStr ''t-1'')
   \<and> truthy (JStr ''t-1'')
   \<and> fst (verify_answer (world [ok_token, ok_token, server_error]) init_st (JStr ''t-1'')) = 500
   \<and> (\<exists>auth s'. run_auth_test (world [ok_token, ok_token, server_error]) init_st = (Inr auth, s')
         \<and> dict_item auth ''success'' = Inr (JBool True)
         \<and> dict_item auth ''token_verified'' = Inr (JBool False))"
proof -
  let ?W = "world [ok_token, ok_token, server_error]"
  have a: "\<not> not_2xx (fst (register_answer ?W init_st))"
    by code_simp
  have b: "\<not> not_2xx (fst (login_answer ?W init_st))"
    by code_simp
  have c: "extract_token (snd (login_answer ?W init_st)) = Inr (JStr ''t-1'')"
    by code_simp
  have d: "truthy (JStr ''t-1'')"
    by simp
  have e: "fst (verify_answer ?W init_st (JStr ''t-1'')) = 500"
    by code_simp
  from success_independent_of_verification [OF a b c d] e
  have "\<exists>auth s'. run_auth_test ?W init_st = (Inr auth, s')
         \<and> dict_item auth ''success'' = Inr (JBool True)
         \<and> dict_item auth ''token_verified'' = Inr (JBool False)"
    by auto
  with a b c d e show ?thesis
    by blast
qed


text \<open>
  C5. For a login answered with a 2xx status and a JSON object \<open>d\<close>, the token is the
  first non-empty value among the fields \<open>token\<close>, \<open>access_token\<close>, \<open>idToken\<close>,
  \<open>id_token\<close>, in this order: it is the token sent to the identity endpoint. A
  non-empty \<open>token\<close> field is selected whatever the other three hold. When none of the
  four is present and non-empty, the outcome has \<open>success = False\<close>, the error text
  lists the keys of \<open>d\<close>, and no identity request is sent.
\<close>

theorem token_priority_order:
  assumes "\<not> not_2xx (fst (register_answer E s))"
      and "\<not> not_2xx (fst (login_answer E s))"
      and "snd (login_answer E s) = JObj d"
  shows "(\<forall>t. first_nonempty d = Some t \<longrightarrow>
            (\<exists>auth. run_auth_test E s =
                (Inr auth,
                 emit (WriteFile CREDENTIALS_FILE
                         (JObj [(''email'', JStr (auth_email E)),
                                (''password'', JStr auth_password)]))
                   (called [register_request E, login_request E, verify_request t] s))
              \<and> dict_item auth ''success'' = Inr (JBool True)))
       \<and> (truthy (dict_get d ''token'' JNull) \<longrightarrow>
            first_nonempty d = Some (dict_get d ''token'' JNull))
       \<and> (first_nonempty d = None \<longrightarrow>
            (\<exists>auth. run_auth_test E s =
                (Inr auth, called [register_request E, login_request E] s)
              \<and> dict_item auth ''success'' = Inr (JBool False)
              \<and> dict_item auth ''error'' =
                  Inr (JStr (''Login response has no token field. Keys: ''
                             @ py_repr (JList (map (\<lambda>kv. JStr (fst kv)) d))))))"
proof (intro conjI allI impI)
  fix t
  assume t: "first_nonempty d = Some t"
  then have "extract_token (snd (login_answer E s)) = Inr t"
    using assms(3) by (simp add: extract_token_first del: extract_token.simps)
  from run_auth_test_ok [OF assms(1,2) this first_nonempty_truthy [OF t]]
  show "\<exists>auth. run_auth_test E s =
          (Inr auth,
           emit (WriteFile CREDENTIALS_FILE
                   (JObj [(''email'', JStr (auth_email E)), (''password'', JStr auth_password)]))
             (called [register_request E, login_request E, verify_request t] s))
        \<and> dict_item auth ''success'' = Inr (JBool True)"
    by (simp add: dict_item_def)
next
  assume "truthy (dict_get d ''token'' JNull)"
  then show "first_nonempty d = Some (dict_get d ''token'' JNull)"
    by (simp add: first_nonempty_def token_fields_def)
next
  assume "first_nonempty d = None"
  from run_auth_test_no_token [OF assms this]
  show "\<exists>auth. run_auth_test E s = (Inr auth, called [register_request E, login_request E] s)
        \<and> dict_item auth ''success'' = Inr (JBool False)
        \<and> dict_item auth ''error'' =
            Inr (JStr (''Login response has no token field. Keys: ''
                       @ py_repr (JList (map (\<lambda>kv. JStr (fst kv)) d))))"
    by (simp add: dict_item_def)
qed

theorem token_priority_order_witness:
  "\<not> not_2xx (fst (register_answer (world [ok_token, ok_two_tokens, ok_token]) init_st))
   \<and> \<not> not_2xx (fst (login_answer (world [ok_token, ok_two_tokens, ok_token]) init_st))
   \<and> snd (login_answer (world [ok_token, ok_two_tokens, ok_token]) init_st)
       = JObj [(''access_token'', JStr ''a-1''), (''token'', JStr ''t-1'')]
   \<and> first_nonempty [(''access_token'', JStr ''a-1''), (''token'', JStr ''t-1'')]
       = Some (JStr ''t-1'')
   \<and> (\<exists>auth. fst (run_auth_test (world [ok_token, ok_two_tokens, ok_token]) init_st) = Inr auth
         \<and> trace (snd (run_auth_test (world [ok_token, ok_two_tokens, ok_token]) init_st))
             = [Urlopen (register_request (world [ok_token, ok_two_tokens, ok_token])),
                Urlopen (login_request (world [ok_token, ok_two_tokens, ok_token])),
                Urlopen (verify_request (JStr ''t-1'')),
                WriteFile CREDENTIALS_FILE
                  (JObj [(''email'', JStr (auth_email (world [ok_token, ok_two_tokens, ok_token]))),
                         (''password'', JStr auth_password)])]
         \<and> dict_item auth ''success'' = Inr (JBool True))
   \<and> \<not> not_2xx (fst (register_answer (world [ok_token, ok_no_token]) init_st))
   \<and> \<not> not_2xx (fst (login_answer (world [ok_token, ok_no_token]) init_st))
   \<and> snd (login_answer (world [ok_token, ok_no_token]) init_st)
       = JObj [(''user'', JStr ''qa''), (''token'', JStr [])]
   \<and> first_nonempty [(''user'', JStr ''qa''), (''token'', JStr [])] = None
   \<and> (\<exists>auth. fst (run_auth_test (world [ok_token, ok_no_token]) init_st) = Inr auth
         \<and> dict_item auth ''success'' = Inr (JBool False)
         \<and> dict_item auth ''error'' =
             Inr (JStr (''Login response has no token field. Keys: '' @ ''['' @ [CHR 0x27]
                        @ ''user'' @ [CHR 0x27] @ '', '' @ [CHR 0x27] @ ''token'' @ [CHR 0x27]
                        @ '']'')))"
proof -
  let ?W = "world [ok_token, ok_two_tokens, ok_token]"
  let ?d = "[(''access_token'', JStr ''a-1''), (''token'', JStr ''t-1'')]"
  let ?V = "world [ok_token, ok_no_token]"
  let ?e = "[(''user'', JStr ''qa''), (''token'', JStr [])]"
  have a: "\<not> not_2xx (fst (register_answer ?W init_st))"
    by code_simp
  have b: "\<not> not_2xx (fst (login_answer ?W init_st))"
    by code_simp
  have c: "snd (login_answer ?W init_st) = JObj ?d"
    by code_simp
  have f: "first_nonempty ?d = Some (JStr ''t-1'')"
    by code_simp
  have a': "\<not> not_2xx (fst (register_answer ?V init_st))"
    by code_simp
  have b': "\<not> not_2xx (fst (login_answer ?V init_st))"
    by code_simp
  have c': "snd (login_answer ?V init_st) = JObj ?e"
    by code_simp
  have f': "first_nonempty ?e = None"
    by code_simp
  have r: "py_repr (JList (map (\<lambda>kv. JStr (fst kv)) ?e))
             = ''['' @ [CHR 0x27] @ ''user'' @ [CHR 0x27] @ '', '' @ [CHR 0x27] @ ''token''
               @ [CHR 0x27] @ '']''"
    by code_simp
  have one: "\<exists>auth. fst (run_auth_test ?W init_st) = Inr auth
         \<and> trace (snd (run_auth_test ?W init_st))
             = [Urlopen (register_request ?W), Urlopen (login_request ?W),
                Urlopen (verify_request (JStr ''t-1'')),
                WriteFile CREDENTIALS_FILE
                  (JObj [(''email'', JStr (auth_email ?W)), (''password'', JStr auth_password)])]
         \<and> dict_item auth ''success'' = Inr (JBool True)"
    using token_priority_order [OF a b c] f
    by (auto simp: called_def emit_def init_st_def)
  have two: "\<exists>auth. fst (run_auth_test ?V init_st) = Inr auth
         \<and> dict_item auth ''success'' = Inr (JBool False)
         \<and> dict_item auth ''error'' =
             Inr (JStr (''Login response has no token field. Keys: '' @ ''['' @ [CHR 0x27]
                        @ ''user'' @ [CHR 0x27] @ '', '' @ [CHR 0x27] @ ''token'' @ [CHR 0x27]
                        @ '']''))"
    using token_priority_order [OF a' b' c'] f' r
    by auto
  from a b c f one a' b' c' f' two show ?thesis
    by blast
qed


text \<open>
  C10, as the claim states it, fails: in a run where registration, login and token
  check are all answered, the entries of the login and of the token check hold a status
  and no response payload.
\<close>

theorem login_step_has_no_response:
  "calls (snd (run_auth_test (world [ok_token, ok_token, ok_token]) init_st)) = 3
   \<and> is_step_result
        (step_entry (the_outcome (fst (run_auth_test (world [ok_token, ok_token, ok_token]) init_st)))
           ''register'')
   \<and> \<not> is_step_result
        (step_entry (the_outcome (fst (run_auth_test (world [ok_token, ok_token, ok_token]) init_st)))
           ''login'')
   \<and> \<not> is_step_result
        (step_entry (the_outcome (fst (run_auth_test (world [ok_token, ok_token, ok_token]) init_st)))
           ''verify_token'')"
  by code_simp

text \<open>
  C10, amended. When the auth flow returns an outcome, its steps are named
  \<open>register\<close>, \<open>login\<close>, \<open>verify_token\<close>, one for each HTTP call made and in the order
  of the calls; each entry holds the status code of its call, and the entry of the
  registration alone also holds the response payload.
\<close>

theorem steps_record_each_call:
  assumes "run_auth_test E s = (Inr auth, s')"
  shows "map fst (steps_of auth) = take (calls s' - calls s) [''register'', ''login'', ''verify_token'']
       \<and> 0 < calls s' - calls s
       \<and> step_entry auth ''register'' =
           Some (JObj [(''status'', JInt (fst (register_answer E s))),
                       (''response'', snd (register_answer E s))])
       \<and> (1 < calls s' - calls s \<longrightarrow>
            step_entry auth ''login'' = Some (JObj [(''status'', JInt (fst (login_answer E s)))]))
       \<and> (2 < calls s' - calls s \<longrightarrow>
            (\<exists>token. extract_token (snd (login_answer E s)) = Inr token
               \<and> step_entry auth ''verify_token'' =
                   Some (JObj [(''status'', JInt (fst (verify_answer E s token)))])))"
proof (cases "not_2xx (fst (register_answer E s))")
  case True
  from run_auth_test_register_failed [OF True] assms show ?thesis
    by (auto simp: step_entry_def steps_of_def)
next
  case reg: False
  show ?thesis
  proof (cases "not_2xx (fst (login_answer E s))")
    case True
    from run_auth_test_login_failed [OF reg True] assms show ?thesis
      by (auto simp: step_entry_def steps_of_def)
  next
    case login: False
    show ?thesis
    proof (cases "extract_token (snd (login_answer E s))")
      case (Inl e)
      from run_auth_test_raises [OF reg login Inl] assms show ?thesis
        by simp
    next
      case (Inr token)
      then obtain d where d: "snd (login_answer E s) = JObj d"
        using extract_token_dict by blast
      show ?thesis
      proof (cases "first_nonempty d")
        case None
        from run_auth_test_no_token [OF reg login d None] assms show ?thesis
          by (auto simp: step_entry_def steps_of_def)
      next
        case (Some t)
        with d Inr have t: "token = t"
          by (simp add: extract_token_first del: extract_token.simps)
        from run_auth_test_ok [OF reg login Inr] first_nonempty_truthy [OF Some] t assms Inr
        show ?thesis
          by (auto simp: step_entry_def steps_of_def)
      qed
    qed
  qed
qed

theorem steps_record_each_call_witness:
  "run_auth_test (world [ok_token, ok_token, server_error]) init_st =
     (Inr (the_outcome (fst (run_auth_test (world [ok_token, ok_token, server_error]) init_st))),
      snd (run_auth_test (world [ok_token, ok_token, server_error]) init_st))
   \<and> calls (snd (run_auth_test (world [ok_token, ok_token, server_error]) init_st)) = 3
   \<and> map fst (steps_of (the_outcome (fst (run_auth_test (world [ok_token, ok_token, server_error]) init_st))))
       = [''register'', ''login'', ''verify_token'']
   \<and> step_entry (the_outcome (fst (run_auth_test (world [ok_token, ok_token, server_error]) init_st)))
        ''login'' = Some (JObj [(''status'', JInt 200)])
   \<and> step_entry (the_outcome (fst (run_auth_test (world [ok_token, ok_token, server_error]) init_st)))
        ''verify_token'' = Some (JObj [(''status'', JInt 500)])"
proof -
  let ?W = "world [ok_token, ok_token, server_error]"
  let ?r = "run_auth_test ?W init_st"
  have a: "?r = (Inr (the_outcome (fst ?r)), snd ?r)"
    by code_simp
  have n: "calls (snd ?r) = 3" "calls init_st = 0"
    by code_simp+
  have l: "fst (login_answer ?W init_st) = 200"
    by code_simp
  have t: "extract_token (snd (login_answer ?W init_st)) = Inr (JStr ''t-1'')"
    by code_simp
  have v: "fst (verify_answer ?W init_st (JStr ''t-1'')) = 500"
    by code_simp
  from steps_record_each_call [OF a] n l t v
  have "map fst (steps_of (the_outcome (fst ?r))) = [''register'', ''login'', ''verify_token'']
      \<and> step_entry (the_outcome (fst ?r)) ''login'' = Some (JObj [(''status'', JInt 200)])
      \<and> step_entry (the_outcome (fst ?r)) ''verify_token'' = Some (JObj [(''status'', JInt 500)])"
    by auto
  with a n show ?thesis
    by blast
qed


section \<open>Properties of the HTTP client\<close>

lemma http_error_keeps_code:
  "fst (http_post_result (HTTPError code r reason)) = code"
  "fst (http_get_result (HTTPError code r reason)) = code"
  by (cases r; simp)+

lemma transport_failure_gives_zero:
  "transport_failure out \<Longrightarrow>
     fst (http_post_result out) = 0 \<and> fst (http_get_result out) = 0"
  by (cases out) simp_all

lemma status_zero_cases:
  assumes "valid_outcome out"
  shows "(fst (http_post_result out) = 0) =
           (transport_failure out \<or> (\<exists>status msg. out = Response status (Inl msg)))"
    and "(fst (http_get_result out) = 0) =
           (transport_failure out \<or> (\<exists>status msg. out = Response status (Inl msg)))"
proof -
  show "(fst (http_post_result out) = 0) =
           (transport_failure out \<or> (\<exists>status msg. out = Response status (Inl msg)))"
  proof (cases out)
    case (Response status r)
    with assms show ?thesis by (cases r) auto
  next
    case (HTTPError code r reason)
    with assms show ?thesis by (cases r) auto
  qed simp_all
  show "(fst (http_get_result out) = 0) =
           (transport_failure out \<or> (\<exists>status msg. out = Response status (Inl msg)))"
  proof (cases out)
    case (Response status r)
    with assms show ?thesis by (cases r) auto
  next
    case (HTTPError code r reason)
    with assms show ?thesis by (cases r) auto
  qed simp_all
qed

text \<open>
  C2, at the failing input. A response with status 200 whose body does not decode as
  JSON is no transport failure, and both client operations return status 0 for it, the
  status that their docstrings reserve for a network error.
\<close>

theorem undecodable_response_gives_status_zero:
  "valid_outcome (Response 200 (Inl msg))
   \<and> \<not> transport_failure (Response 200 (Inl msg))
   \<and> http_post_result (Response 200 (Inl msg)) = (0, JObj [(''error'', JStr msg)])
   \<and> http_get_result (Response 200 (Inl msg)) = (0, JObj [(''error'', JStr msg)])"
  by simp

section \<open>Properties of the feature-list loader\<close>

lemma feature_names_shape:
  "\<forall>e\<in>set entries. entry_ok e \<Longrightarrow>
     feature_names entries = Inr (map entry_name (filter is_completed entries))"
proof (induction entries)
  case Nil
  show ?case by simp
next
  case (Cons e es)
  then obtain f where f: "e = JObj f"
    by (cases e) (simp_all add: entry_ok_def)
  show ?case
  proof (cases "is_completed e")
    case True
    with Cons.prems f obtain n where "map_of f ''name'' = Some n"
      by (auto simp: entry_ok_def has_key_def)
    with True f Cons show ?thesis
      by (simp add: is_completed_def entry_name_def dict_item_def)
  next
    case False
    with f Cons show ?thesis
      by (simp add: is_completed_def)
  qed
qed

text \<open>
  C9. A missing file and a file that does not load give the empty list; a file of the
  documented shape gives the names of the completed entries, in file order; the example
  file of the specification gives \<open>X\<close> alone. The loader is a total function: no
  exception leaves it.
\<close>

theorem read_features_completed_names:
  "(features_json E = FileNotFound \<longrightarrow> read_features E = [])
   \<and> (features_json E = LoadError msg \<longrightarrow> read_features E = [])
   \<and> (features_json E = Loaded (JObj d) \<and> map_of d ''features'' = Some (JList entries)
        \<and> (\<forall>e\<in>set entries. entry_ok e)
      \<longrightarrow> read_features E = map entry_name (filter is_completed entries))
   \<and> (features_json E = Loaded (JObj d) \<and> map_of d ''features'' = None
      \<longrightarrow> read_features E = [])
   \<and> (features_json E = Loaded example_features \<longrightarrow> read_features E = [JStr ''X''])"
proof (intro conjI impI)
  assume "features_json E = Loaded (JObj d) \<and> map_of d ''features'' = Some (JList entries)
          \<and> (\<forall>e\<in>set entries. entry_ok e)"
  then show "read_features E = map entry_name (filter is_completed entries)"
    by (simp add: read_features_def completed_features_def dict_get_def feature_names_shape)
next
  assume "features_json E = Loaded example_features"
  then show "read_features E = [JStr ''X'']"
    by (simp add: read_features_def completed_features_def dict_get_def example_features_def
          dict_item_def)
qed (simp_all add: read_features_def completed_features_def dict_get_def)

theorem read_features_completed_names_witness:
  "features_json (world [] \<lparr>features_json := Loaded example_features\<rparr>)
     = Loaded (JObj [(''features'',
            JList [JObj [(''name'', JStr ''X''), (''status'', JStr ''completed'')],
                   JObj [(''name'', JStr ''Y''), (''status'', JStr ''todo'')]])])
   \<and> entry_ok (JObj [(''name'', JStr ''X''), (''status'', JStr ''completed'')])
   \<and> entry_ok (JObj [(''name'', JStr ''Y''), (''status'', JStr ''todo'')])
   \<and> read_features (world [] \<lparr>features_json := Loaded example_features\<rparr>) = [JStr ''X'']
   \<and> features_json (world []) = FileNotFound
   \<and> read_features (world []) = []
   \<and> read_features (world [] \<lparr>features_json := LoadError ''Expecting value''\<rparr>) = []"
proof -
  let ?W = "world [] \<lparr>features_json := Loaded example_features\<rparr>"
  let ?x = "JObj [(''name'', JStr ''X''), (''status'', JStr ''completed'')]"
  let ?y = "JObj [(''name'', JStr ''Y''), (''status'', JStr ''todo'')]"
  have a: "features_json ?W = Loaded (JObj [(''features'', JList [?x, ?y])])"
    by (simp add: world_def example_features_def)
  have b: "entry_ok ?x" "entry_ok ?y"
    by (simp_all add: entry_ok_def is_completed_def has_key_def dict_get_def)
  have c: "map entry_name (filter is_completed [?x, ?y]) = [JStr ''X'']"
    by (simp add: is_completed_def entry_name_def dict_item_def dict_get_def)
  have d: "features_json (world []) = FileNotFound"
    by (simp add: world_def)
  have e: "features_json (world [] \<lparr>features_json := LoadError ''Expecting value''\<rparr>)
             = LoadError ''Expecting value''"
    by simp
  have "read_features ?W = [JStr ''X'']"
    using read_features_completed_names
            [of ?W _ "[(''features'', JList [?x, ?y])]" "[?x, ?y]"] a b c
    by simp
  moreover have "read_features (world []) = []"
    using read_features_completed_names [of "world []"] d by simp
  moreover have "read_features (world [] \<lparr>features_json := LoadError ''Expecting value''\<rparr>) = []"
    using read_features_completed_names
            [of "world [] \<lparr>features_json := LoadError ''Expecting value''\<rparr>" "''Expecting value''"] e
    by simp
  ultimately show ?thesis
    using a b d by simp
qed


section \<open>Properties of the orchestrator\<close>

text \<open>
  The rows of the precedence table, as lines 321-369 compute them: \<open>ec\<close> is the exit
  code on entry, which \<^verbatim>\<open>main\<close> sets to 0.
\<close>

lemma exit_code_auth_failed:
  assumes "dict_item auth ''success'' = Inr v" and "\<not> truthy v"
  shows "snd (the_pair (fst (browser_stage E skip ec auth output s))) = 1"
  using assms by (simp add: browser_stage_def the_pair_def)

lemma exit_code_no_frontend:
  assumes "dict_item auth ''success'' = Inr v" and "truthy v"
      and "dict_item auth ''email'' = Inr em" and "dict_item auth ''password'' = Inr pw"
      and "\<not> frontend_isdir E"
  shows "snd (the_pair (fst (browser_stage E skip ec auth output s))) = ec"
  using assms by (simp add: browser_stage_def the_pair_def)

lemma exit_code_ports_failed:
  assumes "dict_item auth ''success'' = Inr v" and "truthy v"
      and "dict_item auth ''email'' = Inr em" and "dict_item auth ''password'' = Inr pw"
      and "frontend_isdir E"
      and "dict_item (fst (make_ports_public E s)) ''success'' = Inr ok" and "\<not> truthy ok"
      and "dict_item (fst (make_ports_public E s)) ''error'' = Inr perr"
  shows "snd (the_pair (fst (browser_stage E skip ec auth output s))) = 2"
  using assms by (simp add: browser_stage_def the_pair_def split_beta)

lemma exit_code_probe_exhausted:
  assumes "dict_item auth ''success'' = Inr v" and "truthy v"
      and "dict_item auth ''email'' = Inr em" and "dict_item auth ''password'' = Inr pw"
      and "frontend_isdir E"
      and "dict_item (fst (make_ports_public E s)) ''success'' = Inr ok" and "truthy ok"
  shows "browser_stage E True ec auth output s
           = (Inr (output, ec), snd (make_ports_public E s))"
  using assms by (simp add: browser_stage_def split_beta)

lemma exit_code_invocation:
  assumes "dict_item auth ''success'' = Inr v" and "truthy v"
      and "dict_item auth ''email'' = Inr em" and "dict_item auth ''password'' = Inr pw"
      and "frontend_isdir E"
      and "dict_item (fst (make_ports_public E s)) ''success'' = Inr ok" and "truthy ok"
      and "dict_item (fst (make_ports_public E s)) ''frontend_url'' = Inr url"
      and "fst (call_browser_agent E url em pw (read_features E) (snd (make_ports_public E s)))
             = Inr smoke"
  shows "snd (the_pair (fst (browser_stage E False ec auth output s))) =
           (if dict_get smoke ''overall'' (JStr ''unknown'') = JStr ''pass'' then 0
            else if dict_get smoke ''overall'' (JStr ''unknown'') = JStr ''skipped'' then 2
            else 1)"
  using assms
  by (cases "call_browser_agent E url em pw (read_features E) (snd (make_ports_public E s))")
     (simp add: browser_stage_def the_pair_def split_beta Let_def)

text \<open>
  C1, at the failing input. All four attempts of the connectivity check are refused;
  the auth flow succeeds, the frontend directory exists and the ports are published.
  The browser stage of the printed report is \<open>error\<close>, no request beyond the four of the
  check and the three of the auth flow is sent, and the exit code is 0, not 2.
\<close>

theorem probe_exhausted_exits_zero:
  "fst (wake_loop probe_down [0..<WAKE_RETRIES] init_st) = Inr False
   \<and> dict_item (the_outcome (fst (run_auth_test probe_down
                   (snd (wake_loop probe_down [0..<WAKE_RETRIES] init_st))))) ''success''
       = Inr (JBool True)
   \<and> frontend_isdir probe_down
   \<and> dict_item (fst (make_ports_public probe_down init_st)) ''success'' = Inr (JBool True)
   \<and> fst (main probe_down init_st) = Inr 0
   \<and> process_exit probe_down = 0
   \<and> calls (snd (main probe_down init_st)) = 7
   \<and> py_get (dict_get (printed_report (snd (main probe_down init_st))) ''browser_smoke_test'' JNull)
        ''overall'' JNull = Inr (JStr ''error'')
   \<and> dict_item (printed_report (snd (main probe_down init_st))) ''exit_code'' = Inr (JInt 0)"
  by code_simp


subsection \<open>The connectivity check\<close>

lemma get_result_valid:
  assumes "valid_outcome out"
  shows "0 < fst (http_get_result out)
         \<or> (fst (http_get_result out) = 0
             \<and> (\<exists>m. snd (http_get_result out) = JObj [(''error'', JStr m)]))"
proof (cases out)
  case (Response status r)
  with assms show ?thesis by (cases r) auto
next
  case (HTTPError code r reason)
  with assms show ?thesis by (cases r) auto
qed simp_all

lemma wake_loop_step:
  assumes "valid_outcome (net E (calls s) probe_request)"
  shows "wake_loop E (a # rest) s =
           (if probe_status E s 0 \<noteq> 0 then (Inr True, called [probe_request] s)
            else if a < 3 then
              wake_loop E rest (emit (Sleep (WAKE_DELAYS ! a)) (called [probe_request] s))
            else wake_loop E rest (called [probe_request] s))"
  using get_result_valid [OF assms]
  by (auto simp: http_get_eq probe_request_def probe_status_def WAKE_RETRIES_def
        WAKE_DELAYS_def split_beta dict_get_def)

lemma probe_status_shift:
  "probe_status E (emit e (called [r] s)) i = probe_status E s (Suc i)"
  "probe_status E (called [r] s) i = probe_status E s (Suc i)"
  by (simp_all add: probe_status_def)

lemma probe_events_numbers:
  "probe_events (Suc 0) = [Urlopen probe_request]"
  "probe_events (Suc (Suc 0)) = [Urlopen probe_request, Sleep 10, Urlopen probe_request]"
  "probe_events (Suc (Suc (Suc 0))) = [Urlopen probe_request, Sleep 10, Urlopen probe_request,
                     Sleep 15, Urlopen probe_request]"
  "probe_events (Suc (Suc (Suc (Suc 0)))) = [Urlopen probe_request, Sleep 10, Urlopen probe_request,
                     Sleep 15, Urlopen probe_request, Sleep 15, Urlopen probe_request]"
  by (simp_all add: probe_events_def WAKE_DELAYS_def upt_rec numeral_eq_Suc)

lemma ex_less_4: "(\<exists>i<4. P i) = (P 0 \<or> P (Suc 0) \<or> P 2 \<or> P (3::nat))"
proof -
  have "{..<4::nat} = {0, Suc 0, 2, 3}" by auto
  then have "(\<exists>i\<in>{..<4::nat}. P i) = (P 0 \<or> P (Suc 0) \<or> P 2 \<or> P 3)" by simp
  then show ?thesis by (simp add: Bex_def)
qed

lemma wake_loop_four:
  assumes "\<forall>i<4. valid_outcome (net E (calls s + i) probe_request)"
  shows "wake_loop E [0..<WAKE_RETRIES] s =
           (Inr (\<exists>i<4. probe_status E s i \<noteq> 0),
            s\<lparr>calls := calls s + attempts_made E s,
              trace := trace s @ probe_events (attempts_made E s)\<rparr>)"
proof -
  have v0: "valid_outcome (net E (calls s) probe_request)"
    using assms by (metis add.right_neutral zero_less_numeral)
  have v1: "valid_outcome (net E (Suc (calls s)) probe_request)"
    using assms [rule_format, of 1] by simp
  have v2: "valid_outcome (net E (Suc (Suc (calls s))) probe_request)"
    using assms [rule_format, of 2] by simp
  have v3: "valid_outcome (net E (Suc (Suc (Suc (calls s)))) probe_request)"
    using assms [rule_format, of 3] by (simp add: numeral_3_eq_3)
  have u: "[0..<WAKE_RETRIES] = [0, 1, 2, 3]"
    by (simp add: WAKE_RETRIES_def upt_rec numeral_eq_Suc)
  let ?s1 = "emit (Sleep (WAKE_DELAYS ! 0)) (called [probe_request] s)"
  let ?s2 = "emit (Sleep (WAKE_DELAYS ! 1)) (called [probe_request] ?s1)"
  let ?s3 = "emit (Sleep (WAKE_DELAYS ! 2)) (called [probe_request] ?s2)"
  have w0: "wake_loop E [0, 1, 2, 3] s =
              (if probe_status E s 0 \<noteq> 0 then (Inr True, called [probe_request] s)
               else wake_loop E [1, 2, 3] ?s1)"
    using wake_loop_step [OF v0, of 0] by simp
  have w1: "wake_loop E [1, 2, 3] ?s1 =
              (if probe_status E s 1 \<noteq> 0 then (Inr True, called [probe_request] ?s1)
               else wake_loop E [2, 3] ?s2)"
    using v1 wake_loop_step [of E ?s1 1 "[2, 3]"]
    by (simp add: probe_status_shift)
  have w2: "wake_loop E [2, 3] ?s2 =
              (if probe_status E s 2 \<noteq> 0 then (Inr True, called [probe_request] ?s2)
               else wake_loop E [3] ?s3)"
    using v2 wake_loop_step [of E ?s2 2 "[3]"]
    by (simp add: probe_status_shift numeral_2_eq_2)
  have w3: "wake_loop E [3] ?s3 =
              (if probe_status E s 3 \<noteq> 0 then (Inr True, called [probe_request] ?s3)
               else (Inr False, called [probe_request] ?s3))"
    using v3 wake_loop_step [of E ?s3 3 "[]"]
    by (simp add: probe_status_shift numeral_3_eq_3)
  show ?thesis
    unfolding u w0 w1 w2 w3
    by (simp add: ex_less_4 attempts_made_def probe_events_numbers called_def emit_def
          WAKE_DELAYS_def)
qed


lemma all_less_4: "(\<forall>i<4. P i) = (P 0 \<and> P (Suc 0) \<and> P 2 \<and> P (3::nat))"
  using ex_less_4 [of "\<lambda>i. \<not> P i"] by blast

lemma attempts_made_cases:
  "attempts_made E s =
     (if probe_status E s 0 \<noteq> 0 then 1
      else if probe_status E s (Suc 0) \<noteq> 0 then 2
      else if probe_status E s 2 \<noteq> 0 then 3 else 4)"
  by (simp add: attempts_made_def)

text \<open>
  C7. With answers that \<^verbatim>\<open>urlopen\<close> can give, the check returns true exactly when
  one of the four attempts has a non-zero status, whatever the HTTP status is. It makes
  \<open>attempts_made\<close> attempts, at most four: every attempt before the last one made was
  unreachable, and when fewer than four were made the last one was reachable. Its
  events are the requests with the delays 10, 15, 15 of the schedule between them, and
  the last event is a request: no delay follows the final attempt.
\<close>

theorem connectivity_check:
  assumes "\<forall>i<4. valid_outcome (net E (calls s + i) probe_request)"
  shows "wake_loop E [0..<WAKE_RETRIES] s =
           (Inr (\<exists>i<4. probe_status E s i \<noteq> 0),
            s\<lparr>calls := calls s + attempts_made E s,
              trace := trace s @ probe_events (attempts_made E s)\<rparr>)
       \<and> attempts_made E s \<le> 4
       \<and> (\<forall>i. Suc i < attempts_made E s \<longrightarrow> probe_status E s i = 0)
       \<and> (attempts_made E s < 4 \<longrightarrow> probe_status E s (attempts_made E s - 1) \<noteq> 0)
       \<and> filter is_sleep (probe_events (attempts_made E s)) =
           map Sleep (take (attempts_made E s - 1) WAKE_DELAYS)
       \<and> last (probe_events (attempts_made E s)) = Urlopen probe_request"
proof -
  have "attempts_made E s \<le> 4"
    by (simp add: attempts_made_cases)
  moreover have "\<forall>i. Suc i < attempts_made E s \<longrightarrow> probe_status E s i = 0"
    by (auto simp: attempts_made_cases less_Suc_eq numeral_2_eq_2 numeral_3_eq_3
          split: if_splits)
  moreover have "attempts_made E s < 4 \<longrightarrow> probe_status E s (attempts_made E s - 1) \<noteq> 0"
    by (simp add: attempts_made_cases)
  moreover have "filter is_sleep (probe_events (attempts_made E s)) =
           map Sleep (take (attempts_made E s - 1) WAKE_DELAYS)"
    by (simp add: attempts_made_cases probe_events_numbers WAKE_DELAYS_def
          numeral_2_eq_2 numeral_3_eq_3 eval_nat_numeral)
  moreover have "last (probe_events (attempts_made E s)) = Urlopen probe_request"
    by (simp add: attempts_made_cases probe_events_numbers eval_nat_numeral)
  ultimately show ?thesis
    using wake_loop_four [OF assms] by blast
qed

theorem connectivity_check_witness:
  "valid_outcome (net (world [refused, server_error]) 0 probe_request)
   \<and> valid_outcome (net (world [refused, server_error]) 1 probe_request)
   \<and> valid_outcome (net (world [refused, server_error]) 2 probe_request)
   \<and> valid_outcome (net (world [refused, server_error]) 3 probe_request)
   \<and> probe_status (world [refused, server_error]) init_st 0 = 0
   \<and> probe_status (world [refused, server_error]) init_st 1 = 500
   \<and> wake_loop (world [refused, server_error]) [0..<WAKE_RETRIES] init_st =
       (Inr True,
        \<lparr>calls = 2, trace = [Urlopen probe_request, Sleep 10, Urlopen probe_request]\<rparr>)"
proof -
  let ?W = "world [refused, server_error]"
  have v: "valid_outcome (net ?W 0 probe_request)" "valid_outcome (net ?W 1 probe_request)"
          "valid_outcome (net ?W 2 probe_request)" "valid_outcome (net ?W 3 probe_request)"
    by code_simp+
  then have h: "\<forall>i<4. valid_outcome (net ?W (calls init_st + i) probe_request)"
    by (simp add: all_less_4 init_st_def)
  have p: "probe_status ?W init_st 0 = 0" "probe_status ?W init_st 1 = 500"
    by code_simp+
  then have m: "attempts_made ?W init_st = 2"
    by (simp add: attempts_made_cases)
  have "\<exists>i<4. probe_status ?W init_st i \<noteq> 0"
    using p by (simp add: ex_less_4)
  with connectivity_check [OF h] m
  have "wake_loop ?W [0..<WAKE_RETRIES] init_st =
       (Inr True,
        \<lparr>calls = 2, trace = [Urlopen probe_request, Sleep 10, Urlopen probe_request]\<rparr>)"
    by (simp add: init_st_def probe_events_numbers numeral_2_eq_2)
  with v p show ?thesis
    by simp
qed


section \<open>Properties of the browser-agent invoker\<close>

lemma has_key_update:
  "has_key (AList.update k v d) k' = (k' = k \<or> has_key d k')"
  by (simp add: has_key_def update_conv')

lemma normalize_smoke_object:
  "normalize_smoke (JObj outer) =
     (case unwrapped outer of
        JObj inner \<Rightarrow>
          (case log_results (merged_result outer inner) of
             Inl e \<Rightarrow> Inl e
           | Inr u \<Rightarrow> Inr (merged_result outer inner))
      | _ \<Rightarrow> Inl TypeError)"
proof (cases "map_of outer ''smokeTestResults''")
  case None
  then have k: "\<not> has_key outer ''smokeTestResults''"
    by (simp add: has_key_def)
  have g: "dict_get outer ''smokeTestResults'' (JObj outer) = JObj outer"
    using None by (simp add: dict_get_def)
  have u: "unwrapped outer = JObj outer"
    using None by (simp add: unwrapped_def)
  have m: "merged_result outer outer = AList.update ''service_reachable'' (JBool True) outer"
    by (simp add: merged_result_def)
  show ?thesis
    by (simp add: normalize_smoke_def g u m k Let_def split: sum.splits)
next
  case (Some v)
  then have k: "has_key outer ''smokeTestResults''"
    by (simp add: has_key_def)
  have g: "dict_get outer ''smokeTestResults'' (JObj outer) = v"
    using Some by (simp add: dict_get_def)
  have u: "unwrapped outer = v"
    using Some by (simp add: unwrapped_def)
  show ?thesis
    by (cases v)
       (auto simp: normalize_smoke_def g u k merged_result_def has_key_update Let_def
          split: sum.splits)
qed

lemma normalize_smoke_other:
  "\<forall>outer. body \<noteq> JObj outer \<Longrightarrow> normalize_smoke body = Inl AttributeError"
  by (cases body) (simp_all add: normalize_smoke_def)

lemma call_browser_agent_eq:
  "call_browser_agent E url em pw fs s =
     (smoke_of_answer (fst (smoke_answer E s url em pw fs)) (snd (smoke_answer E s url em pw fs)),
      called [smoke_request url em pw fs] s)"
  by (simp add: call_browser_agent_def http_post_eq smoke_answer_def smoke_request_def
        split_beta)

lemma post_result_valid:
  assumes "valid_outcome out"
  shows "fst (http_post_result out) \<noteq> 0
         \<or> (\<exists>m. snd (http_post_result out) = JObj [(''error'', JStr m)])"
proof (cases out)
  case (Response status r)
  with assms show ?thesis by (cases r) auto
next
  case (HTTPError code r reason)
  with assms show ?thesis by (cases r) auto
qed simp_all

text \<open>
  What the invoker returns, for an answer that \<^verbatim>\<open>urlopen\<close> can give. Status 0 yields
  \<open>overall = skipped\<close> with a reason and \<open>service_reachable = False\<close>; another status
  outside \<open>[200, 300)\<close> yields \<open>overall = error\<close> with the error text, the body as detail
  and \<open>service_reachable = True\<close>. For a 2xx status whose body is an object wrapping an
  object (or being one), the result is that inner object with \<open>service_reachable = True\<close>
  and the top-level screenshot list merged in when the inner object has none, provided
  \<open>log_results\<close> goes through on it; a 2xx answer has a result in no other case.
\<close>

lemma invoker_case_analysis:
  assumes "valid_outcome (net E (calls s) (smoke_request url em pw fs))"
  shows "(let status = fst (smoke_answer E s url em pw fs);
              body = snd (smoke_answer E s url em pw fs);
              result = fst (call_browser_agent E url em pw fs s)
          in (status = 0 \<longrightarrow>
                (\<exists>msg. body = JObj [(''error'', JStr msg)]
                   \<and> result = Inr [(''overall'', JStr ''skipped''),
                                   (''reason'', JStr (''Browser agent unreachable: '' @ msg)),
                                   (''service_reachable'', JBool False)]))
           \<and> (status \<noteq> 0 \<and> not_2xx status \<longrightarrow>
                result = Inr [(''overall'', JStr ''error''),
                              (''error'', JStr (''Browser agent returned HTTP '' @ str_int status)),
                              (''detail'', body),
                              (''service_reachable'', JBool True)])
           \<and> (\<not> not_2xx status \<longrightarrow>
                (\<forall>outer inner. body = JObj outer \<and> unwrapped outer = JObj inner
                     \<and> log_results (merged_result outer inner) = Inr ()
                   \<longrightarrow> result = Inr (merged_result outer inner))
                \<and> ((\<exists>smoke. result = Inr smoke) =
                     (\<exists>outer inner. body = JObj outer \<and> unwrapped outer = JObj inner
                        \<and> log_results (merged_result outer inner) = Inr ()))))"
proof -
  let ?status = "fst (smoke_answer E s url em pw fs)"
  let ?body = "snd (smoke_answer E s url em pw fs)"
  let ?result = "fst (call_browser_agent E url em pw fs s)"
  have r: "?result = smoke_of_answer ?status ?body"
    by (simp add: call_browser_agent_eq)
  have zero: "\<exists>msg. ?body = JObj [(''error'', JStr msg)]
                \<and> ?result = Inr [(''overall'', JStr ''skipped''),
                                 (''reason'', JStr (''Browser agent unreachable: '' @ msg)),
                                 (''service_reachable'', JBool False)]"
    if "?status = 0"
    using post_result_valid [OF assms] that
    by (auto simp: r smoke_of_answer_def smoke_answer_def dict_get_def)
  have err: "?result = Inr [(''overall'', JStr ''error''),
                            (''error'', JStr (''Browser agent returned HTTP '' @ str_int ?status)),
                            (''detail'', ?body),
                            (''service_reachable'', JBool True)]"
    if "?status \<noteq> 0 \<and> not_2xx ?status"
    using that by (simp add: r smoke_of_answer_def)
  have ok: "?result = normalize_smoke ?body" if "\<not> not_2xx ?status"
    using that by (auto simp: r smoke_of_answer_def not_2xx_def)
  have ok1: "?result = Inr (merged_result outer inner)"
    if "\<not> not_2xx ?status" "?body = JObj outer" "unwrapped outer = JObj inner"
       "log_results (merged_result outer inner) = Inr ()" for outer inner
    using that by (simp add: ok normalize_smoke_object)
  have ok2: "(\<exists>smoke. ?result = Inr smoke) =
               (\<exists>outer inner. ?body = JObj outer \<and> unwrapped outer = JObj inner
                  \<and> log_results (merged_result outer inner) = Inr ())"
    if n: "\<not> not_2xx ?status"
  proof (cases "\<exists>outer. ?body = JObj outer")
    case True
    then obtain outer where outer: "?body = JObj outer" ..
    show ?thesis
      by (cases "unwrapped outer"; cases "log_results (merged_result outer (case unwrapped outer of JObj i \<Rightarrow> i | _ \<Rightarrow> []))")
         (auto simp: ok [OF n] outer normalize_smoke_object)
  next
    case False
    then show ?thesis
      by (simp add: ok [OF n] normalize_smoke_other)
  qed
  show ?thesis
    unfolding Let_def using zero err ok1 ok2 by blast
qed


lemma invoker_case_analysis_example:
  "valid_outcome (net (world [refused]) (calls init_st) (smoke_request qa_url qa_email qa_password []))
   \<and> fst (smoke_answer (world [refused]) init_st qa_url qa_email qa_password []) = 0
   \<and> fst (call_browser_agent (world [refused]) qa_url qa_email qa_password [] init_st)
       = Inr [(''overall'', JStr ''skipped''),
              (''reason'', JStr ''Browser agent unreachable: [Errno 111] Connection refused''),
              (''service_reachable'', JBool False)]
   \<and> valid_outcome (net (world [server_error]) (calls init_st)
                       (smoke_request qa_url qa_email qa_password []))
   \<and> fst (smoke_answer (world [server_error]) init_st qa_url qa_email qa_password []) = 500
   \<and> fst (call_browser_agent (world [server_error]) qa_url qa_email qa_password [] init_st)
       = Inr [(''overall'', JStr ''error''),
              (''error'', JStr ''Browser agent returned HTTP 500''),
              (''detail'', JObj [(''raw'', JStr ''Internal Server Error'')]),
              (''service_reachable'', JBool True)]
   \<and> valid_outcome (net (world [agent_pass]) (calls init_st)
                       (smoke_request qa_url qa_email qa_password []))
   \<and> fst (smoke_answer (world [agent_pass]) init_st qa_url qa_email qa_password []) = 200
   \<and> fst (call_browser_agent (world [agent_pass]) qa_url qa_email qa_password [] init_st)
       = Inr [(''overall'', JStr ''pass''),
              (''tests'', JList [JObj [(''feature'', JStr ''Login''),
                                       (''status'', JStr ''pass''),
                                       (''notes'', JStr ''signed in'')]]),
              (''service_reachable'', JBool True),
              (''screenshotUrls'', JList [JStr ''https://shots.example.com/1.png''])]"
proof -
  let ?rq = "smoke_request qa_url qa_email qa_password []"
  let ?inner = "[(''overall'', JStr ''pass''),
                 (''tests'', JList [JObj [(''feature'', JStr ''Login''),
                                          (''status'', JStr ''pass''),
                                          (''notes'', JStr ''signed in'')]])]"
  let ?outer = "[(''smokeTestResults'', JObj ?inner),
                 (''screenshotUrls'', JList [JStr ''https://shots.example.com/1.png''])]"
  have v1: "valid_outcome (net (world [refused]) (calls init_st) ?rq)"
    by code_simp
  have a1: "fst (smoke_answer (world [refused]) init_st qa_url qa_email qa_password []) = 0"
    by code_simp
  have b1: "snd (smoke_answer (world [refused]) init_st qa_url qa_email qa_password [])
              = JObj [(''error'', JStr ''[Errno 111] Connection refused'')]"
    by code_simp
  have r1: "fst (call_browser_agent (world [refused]) qa_url qa_email qa_password [] init_st)
       = Inr [(''overall'', JStr ''skipped''),
              (''reason'', JStr ''Browser agent unreachable: [Errno 111] Connection refused''),
              (''service_reachable'', JBool False)]"
    using invoker_case_analysis [OF v1] a1 b1
    by (simp add: Let_def)
  have v2: "valid_outcome (net (world [server_error]) (calls init_st) ?rq)"
    by code_simp
  have a2: "fst (smoke_answer (world [server_error]) init_st qa_url qa_email qa_password []) = 500"
    by code_simp
  have b2: "snd (smoke_answer (world [server_error]) init_st qa_url qa_email qa_password [])
              = JObj [(''raw'', JStr ''Internal Server Error'')]"
    by code_simp
  have c2: "str_int 500 = ''500''"
    by code_simp
  have r2: "fst (call_browser_agent (world [server_error]) qa_url qa_email qa_password [] init_st)
       = Inr [(''overall'', JStr ''error''),
              (''error'', JStr ''Browser agent returned HTTP 500''),
              (''detail'', JObj [(''raw'', JStr ''Internal Server Error'')]),
              (''service_reachable'', JBool True)]"
    using invoker_case_analysis [OF v2] a2 b2 c2
    by (simp add: Let_def not_2xx_def)
  have v3: "valid_outcome (net (world [agent_pass]) (calls init_st) ?rq)"
    by code_simp
  have a3: "fst (smoke_answer (world [agent_pass]) init_st qa_url qa_email qa_password []) = 200"
    by code_simp
  have b3: "snd (smoke_answer (world [agent_pass]) init_st qa_url qa_email qa_password [])
              = JObj ?outer"
    by code_simp
  have c3: "unwrapped ?outer = JObj ?inner"
    by code_simp
  have d3: "log_results (merged_result ?outer ?inner) = Inr ()"
    by code_simp
  have e3: "merged_result ?outer ?inner =
              [(''overall'', JStr ''pass''),
               (''tests'', JList [JObj [(''feature'', JStr ''Login''),
                                        (''status'', JStr ''pass''),
                                        (''notes'', JStr ''signed in'')]]),
               (''service_reachable'', JBool True),
               (''screenshotUrls'', JList [JStr ''https://shots.example.com/1.png''])]"
    by code_simp
  have n3: "\<not> not_2xx 200"
    by (simp add: not_2xx_def)
  have r3: "fst (call_browser_agent (world [agent_pass]) qa_url qa_email qa_password [] init_st)
              = Inr (merged_result ?outer ?inner)"
    using invoker_case_analysis [OF v3] a3 b3 c3 d3 n3
    unfolding Let_def by metis
  from v1 a1 r1 v2 a2 r2 v3 a3 r3 e3 show ?thesis
    by simp
qed


text \<open>
  C3, at the failing input. The browser agent answers 200 with a results object under
  \<open>smokeTestResults\<close> whose one test has \<^verbatim>\<open>"notes": null\<close>. The claim has the invoker
  return that inner object with \<open>service_reachable\<close> set; the invoker raises
  \<^verbatim>\<open>TypeError\<close> instead, at the log line 261 that cuts the notes to 80 characters.
  With the notes left out, which the default of line 261 provides for, the same answer
  is returned as the claim says.
\<close>

theorem invoker_raises_on_null_notes:
  "valid_outcome agent_null_notes
   \<and> smoke_answer (world [agent_null_notes]) init_st qa_url qa_email qa_password []
       = (200, JObj null_notes_body)
   \<and> unwrapped null_notes_body = JObj null_notes_inner
   \<and> fst (call_browser_agent (world [agent_null_notes]) qa_url qa_email qa_password [] init_st)
       = Inl TypeError
   \<and> smoke_of_answer 200 (JObj [(''smokeTestResults'', JObj no_notes_inner)])
       = Inr (AList.update ''service_reachable'' (JBool True) no_notes_inner)"
  by code_simp

section \<open>Properties of the report\<close>

lemma finish_returns:
  assumes "finish auth output code s = (Inr c, s')"
  shows "c = code
       \<and> trace s' = trace s @
           [WriteFile RESULTS_FILE (JObj (AList.update ''exit_code'' (JInt code) output)),
            Stdout (JObj (AList.update ''exit_code'' (JInt code) output))]"
  using assms
  by (auto simp: finish_def Let_def emit_def split: sum.splits)

lemma browser_stage_shape:
  assumes "browser_stage E skip ec auth output s = (Inr (output', c), s')"
  shows "(\<exists>d. output' = AList.update ''browser_smoke_test'' (JObj d) output)
         \<or> (skip \<and> output' = output)"
  using assms
  unfolding browser_stage_def Let_def
  by (simp split: sum.splits prod.splits if_splits) blast+


lemma browser_stage_report:
  assumes "browser_stage E skip ec auth output s = (Inr (output', c), s')"
  shows "map_of output' ''timestamp'' = map_of output ''timestamp''
       \<and> map_of output' ''auth'' = map_of output ''auth''
       \<and> ((\<exists>d. map_of output' ''browser_smoke_test'' = Some (JObj d))
           \<or> (skip \<and> output' = output))"
  using browser_stage_shape [OF assms]
  by (auto simp: update_conv')

lemma main_stages:
  assumes "fst (main E s) = Inr code"
  shows "\<exists>reach s1 auth s2 o3 c1 s3 s4.
           wake_loop E [0..<WAKE_RETRIES] s = (Inr reach, s1)
         \<and> run_auth_test E s1 = (Inr auth, s2)
         \<and> browser_stage E (\<not> reach) 0 auth
             (AList.update ''auth'' (JObj auth)
                (if \<not> reach then
                   AList.update ''browser_smoke_test''
                     (JObj [(''overall'', JStr ''error''),
                            (''reason'', JStr (''Browser agent unreachable after ''
                                               @ str_int (int WAKE_RETRIES) @ '' attempts''))])
                     [(''timestamp'', JStr (timestamp E)), (''auth'', JNull),
                      (''browser_smoke_test'', JNull)]
                 else [(''timestamp'', JStr (timestamp E)), (''auth'', JNull),
                       (''browser_smoke_test'', JNull)])) s2
             = (Inr (o3, c1), s3)
         \<and> finish auth o3 c1 s3 = (Inr code, s4)
         \<and> main E s = (Inr code, s4)"
proof -
  obtain r1 s1 where w: "wake_loop E [0..<WAKE_RETRIES] s = (r1, s1)"
    by (cases "wake_loop E [0..<WAKE_RETRIES] s")
  obtain reach where r1: "r1 = Inr reach"
    using assms w by (cases r1) (simp_all add: main_def)
  obtain r2 s2 where a: "run_auth_test E s1 = (r2, s2)"
    by (cases "run_auth_test E s1")
  obtain auth where r2: "r2 = Inr auth"
    using assms w r1 a by (cases r2) (simp_all add: main_def Let_def)
  let ?o2 = "AList.update ''auth'' (JObj auth)
                (if \<not> reach then
                   AList.update ''browser_smoke_test''
                     (JObj [(''overall'', JStr ''error''),
                            (''reason'', JStr (''Browser agent unreachable after ''
                                               @ str_int (int WAKE_RETRIES) @ '' attempts''))])
                     [(''timestamp'', JStr (timestamp E)), (''auth'', JNull),
                      (''browser_smoke_test'', JNull)]
                 else [(''timestamp'', JStr (timestamp E)), (''auth'', JNull),
                       (''browser_smoke_test'', JNull)])"
  obtain r3 s3 where b: "browser_stage E (\<not> reach) 0 auth ?o2 s2 = (r3, s3)"
    by (cases "browser_stage E (\<not> reach) 0 auth ?o2 s2")
  have m: "main E s = (case r3 of Inl e \<Rightarrow> (Inl e, s3)
                       | Inr (o3, c1) \<Rightarrow> finish auth o3 c1 s3)"
    unfolding main_def Let_def w r1 prod.case sum.case a r2 b
    by (rule refl)
  obtain o3 c1 where r3: "r3 = Inr (o3, c1)"
    using assms m by (cases r3) auto
  obtain r4 s4 where f: "finish auth o3 c1 s3 = (r4, s4)"
    by (cases "finish auth o3 c1 s3")
  have "r4 = Inr code"
    using assms m r3 f by simp
  with w r1 a r2 b r3 f m show ?thesis
    by simp
qed

text \<open>
  Whenever \<^verbatim>\<open>main\<close> returns, the last event of the run is the printing of a report
  that has the fields \<open>timestamp\<close>, \<open>auth\<close>, \<open>browser_smoke_test\<close> and \<open>exit_code\<close>, none
  of them \<^verbatim>\<open>None\<close>; the same report was written to the results file before, and its
  exit code is the value that \<^verbatim>\<open>main\<close> returns.
\<close>

lemma report_complete_when_main_returns:
  assumes "fst (main E s) = Inr code"
  shows "report_emitted (snd (main E s))
       \<and> dict_item (printed_report (snd (main E s))) ''exit_code'' = Inr (JInt code)"
proof -
  let ?o0 = "[(''timestamp'', JStr (timestamp E)), (''auth'', JNull),
              (''browser_smoke_test'', JNull)]"
  let ?pre = "JObj [(''overall'', JStr ''error''),
                    (''reason'', JStr (''Browser agent unreachable after ''
                                       @ str_int (int WAKE_RETRIES) @ '' attempts''))]"
  from main_stages [OF assms] obtain reach s1 auth s2 o3 c1 s3 s4 where
    st: "browser_stage E (\<not> reach) 0 auth
           (AList.update ''auth'' (JObj auth)
              (if \<not> reach then AList.update ''browser_smoke_test'' ?pre ?o0 else ?o0)) s2
         = (Inr (o3, c1), s3)"
    and fi: "finish auth o3 c1 s3 = (Inr code, s4)"
    and ma: "main E s = (Inr code, s4)"
    by blast
  let ?o2 = "AList.update ''auth'' (JObj auth)
               (if \<not> reach then AList.update ''browser_smoke_test'' ?pre ?o0 else ?o0)"
  let ?r = "AList.update ''exit_code'' (JInt code) o3"
  from finish_returns [OF fi]
  have c: "c1 = code"
    and tr: "trace s4 = trace s3 @ [WriteFile RESULTS_FILE (JObj ?r), Stdout (JObj ?r)]"
    by simp_all
  from browser_stage_report [OF st]
  have ts: "map_of o3 ''timestamp'' = map_of ?o2 ''timestamp''"
    and au: "map_of o3 ''auth'' = map_of ?o2 ''auth''"
    and bs: "(\<exists>d. map_of o3 ''browser_smoke_test'' = Some (JObj d))
             \<or> (\<not> reach \<and> o3 = ?o2)"
    by simp_all
  have p1: "populated ?r ''timestamp''"
    using ts by (simp add: populated_def update_conv')
  have p2: "populated ?r ''auth''"
    using au by (simp add: populated_def update_conv')
  have p3: "populated ?r ''browser_smoke_test''"
    using bs by (auto simp: populated_def update_conv')
  have p4: "populated ?r ''exit_code''"
    by (simp add: populated_def update_conv')
  have "report_emitted s4"
    using p1 p2 p3 p4 by (simp add: report_emitted_def tr complete_report_def)
  moreover have "dict_item (printed_report s4) ''exit_code'' = Inr (JInt code)"
    by (simp add: printed_report_def tr dict_item_def update_conv')
  ultimately show ?thesis
    by (simp add: ma)
qed


lemma report_complete_when_main_returns_example:
  "fst (main conflict_run init_st) = Inr 1
   \<and> report_emitted (snd (main conflict_run init_st))
   \<and> dict_item (printed_report (snd (main conflict_run init_st))) ''exit_code'' = Inr (JInt 1)
   \<and> fst (main passing_run init_st) = Inr 0
   \<and> report_emitted (snd (main passing_run init_st))
   \<and> dict_item (printed_report (snd (main passing_run init_st))) ''exit_code'' = Inr (JInt 0)
   \<and> fst (main probe_down init_st) = Inr 0
   \<and> report_emitted (snd (main probe_down init_st))"
proof -
  have a: "fst (main conflict_run init_st) = Inr 1"
    by code_simp
  have b: "fst (main passing_run init_st) = Inr 0"
    by code_simp
  have c: "fst (main probe_down init_st) = Inr 0"
    by code_simp
  from report_complete_when_main_returns [OF a] report_complete_when_main_returns [OF b]
       report_complete_when_main_returns [OF c] a b c
  show ?thesis
    by simp
qed


lemma main_eq:
  assumes w: "wake_loop E [0..<WAKE_RETRIES] s = (Inr reach, s1)"
      and a: "run_auth_test E s1 = (Inr auth, s2)"
      and b: "browser_stage E (\<not> reach) 0 auth (report_so_far E reach auth) s2
                = (Inr (o3, c1), s3)"
  shows "main E s = finish auth o3 c1 s3"
  using b unfolding report_so_far_def main_def Let_def w prod.case sum.case a
  by simp

lemma auth_outcome_keys:
  assumes "run_auth_test E s = (Inr auth, s')"
  shows "\<exists>b em pw. dict_item auth ''success'' = Inr (JBool b)
           \<and> dict_item auth ''email'' = Inr (JStr em)
           \<and> dict_item auth ''password'' = Inr (JStr pw)"
proof (cases "not_2xx (fst (register_answer E s))")
  case True
  from run_auth_test_register_failed [OF True] assms show ?thesis
    by (auto simp: dict_item_def)
next
  case reg: False
  show ?thesis
  proof (cases "not_2xx (fst (login_answer E s))")
    case True
    from run_auth_test_login_failed [OF reg True] assms show ?thesis
      by (auto simp: dict_item_def)
  next
    case login: False
    show ?thesis
    proof (cases "extract_token (snd (login_answer E s))")
      case (Inl e)
      from run_auth_test_raises [OF reg login Inl] assms show ?thesis
        by simp
    next
      case (Inr token)
      then obtain d where d: "snd (login_answer E s) = JObj d"
        using extract_token_dict by blast
      show ?thesis
      proof (cases "first_nonempty d")
        case None
        from run_auth_test_no_token [OF reg login d None] assms show ?thesis
          by (auto simp: dict_item_def)
      next
        case (Some t)
        with d Inr have t: "token = t"
          by (simp add: extract_token_first del: extract_token.simps)
        from run_auth_test_ok [OF reg login Inr] first_nonempty_truthy [OF Some] t assms
        show ?thesis
          by (auto simp: dict_item_def)
      qed
    qed
  qed
qed

lemma ports_keys:
  "\<exists>b. dict_item (fst (make_ports_public E s)) ''success'' = Inr (JBool b)
       \<and> (\<not> b \<longrightarrow> (\<exists>e. dict_item (fst (make_ports_public E s)) ''error'' = Inr (JStr e)))"
  by (auto simp: make_ports_public_def dict_item_def Let_def
        split: option.splits gh_outcome.splits)

lemma finish_ok:
  assumes "dict_item auth ''success'' = Inr v"
      and "map_of output ''browser_smoke_test'' = Some (JObj st)"
      and "dict_get st ''overall'' (JStr ''unknown'') = JStr t"
  shows "fst (finish auth output code s) = Inr code"
  using assms
  by (simp add: finish_def Let_def dict_item_def update_conv')


lemma browser_stage_without_invocation:
  assumes k: "dict_item auth ''success'' = Inr (JBool b)"
             "dict_item auth ''email'' = Inr em" "dict_item auth ''password'' = Inr pw"
      and p: "dict_item (fst (make_ports_public E s)) ''success'' = Inr (JBool pb)"
             "\<not> pb \<longrightarrow> dict_item (fst (make_ports_public E s)) ''error'' = Inr (JStr pe)"
      and n: "\<not> b \<or> \<not> frontend_isdir E \<or> \<not> pb \<or> skip"
  shows "\<exists>o3 s3.
           browser_stage E skip 0 auth output s =
             (Inr (o3, if \<not> b then 1 else if \<not> frontend_isdir E then 0
                       else if \<not> pb then 2 else 0), s3)
         \<and> ((\<exists>st t. map_of o3 ''browser_smoke_test'' = Some (JObj st)
                \<and> dict_get st ''overall'' (JStr ''unknown'') = JStr t)
             \<or> (skip \<and> o3 = output))"
proof (cases b)
  case False
  with k show ?thesis
    by (simp add: browser_stage_def update_conv' dict_get_def)
next
  case b: True
  show ?thesis
  proof (cases "frontend_isdir E")
    case False
    with k b show ?thesis
      by (simp add: browser_stage_def update_conv' dict_get_def)
  next
    case f: True
    show ?thesis
    proof (cases pb)
      case False
      with k b f p show ?thesis
        by (simp add: browser_stage_def update_conv' dict_get_def split_beta)
    next
      case True
      with n b f have "skip" by simp
      with k b f p True show ?thesis
        by (simp add: browser_stage_def split_beta)
    qed
  qed
qed


lemma ports_state:
  "fst (make_ports_public E s) = fst (make_ports_public E s')"
  by (simp add: make_ports_public_def Let_def split: option.splits gh_outcome.splits)

text \<open>
  The four branches that do not call the browser agent. With answers to the check that
  \<^verbatim>\<open>urlopen\<close> can give and an auth flow that returns, \<^verbatim>\<open>main\<close> returns and ends by
  printing the complete report when the auth flow failed, the frontend directory is
  missing, the ports were not published or the check was exhausted; the exit code is
  1, 0, 2 and 0 in this order of precedence.
\<close>

lemma report_without_invocation:
  assumes v: "\<forall>i<4. valid_outcome (net E (calls s + i) probe_request)"
      and a: "fst (run_auth_test E (snd (wake_loop E [0..<WAKE_RETRIES] s))) = Inr auth"
      and n: "dict_item auth ''success'' = Inr (JBool False) \<or> \<not> frontend_isdir E
              \<or> dict_item (fst (make_ports_public E init_st)) ''success'' = Inr (JBool False)
              \<or> fst (wake_loop E [0..<WAKE_RETRIES] s) = Inr False"
  shows "fst (main E s) =
           Inr (if dict_item auth ''success'' = Inr (JBool False) then 1
                else if \<not> frontend_isdir E then 0
                else if dict_item (fst (make_ports_public E init_st)) ''success''
                          = Inr (JBool False) then 2
                else 0)
       \<and> report_emitted (snd (main E s))"
proof -
  from wake_loop_four [OF v] obtain reach s1 where
    w: "wake_loop E [0..<WAKE_RETRIES] s = (Inr reach, s1)"
    by blast
  from a w obtain s2 where a': "run_auth_test E s1 = (Inr auth, s2)"
    by (cases "run_auth_test E s1") simp
  from auth_outcome_keys [OF a'] obtain b em pw where
    k: "dict_item auth ''success'' = Inr (JBool b)"
       "dict_item auth ''email'' = Inr (JStr em)" "dict_item auth ''password'' = Inr (JStr pw)"
    by blast
  from ports_keys [of E s2] obtain pb where
    p1: "dict_item (fst (make_ports_public E s2)) ''success'' = Inr (JBool pb)"
    and p2: "\<not> pb \<longrightarrow> (\<exists>e. dict_item (fst (make_ports_public E s2)) ''error'' = Inr (JStr e))"
    by blast
  from p2 obtain pe where
    p3: "\<not> pb \<longrightarrow> dict_item (fst (make_ports_public E s2)) ''error'' = Inr (JStr pe)"
    by blast
  have pi: "dict_item (fst (make_ports_public E init_st)) ''success'' = Inr (JBool pb)"
    using p1 ports_state [of E init_st s2] by simp
  have n': "\<not> b \<or> \<not> frontend_isdir E \<or> \<not> pb \<or> \<not> reach"
    using n k(1) pi w by auto
  let ?c = "if \<not> b then 1 else if \<not> frontend_isdir E then 0 else if \<not> pb then 2 else (0::int)"
  from browser_stage_without_invocation
         [OF k p1 p3 n', of "report_so_far E reach auth"]
  obtain o3 s3 where
    st: "browser_stage E (\<not> reach) 0 auth (report_so_far E reach auth) s2 = (Inr (o3, ?c), s3)"
    and sh: "(\<exists>st t. map_of o3 ''browser_smoke_test'' = Some (JObj st)
                \<and> dict_get st ''overall'' (JStr ''unknown'') = JStr t)
             \<or> (\<not> reach \<and> o3 = report_so_far E reach auth)"
    by blast
  have "\<exists>st t. map_of o3 ''browser_smoke_test'' = Some (JObj st)
                \<and> dict_get st ''overall'' (JStr ''unknown'') = JStr t"
    using sh by (auto simp: report_so_far_def update_conv' dict_get_def)
  then obtain st t where
    o: "map_of o3 ''browser_smoke_test'' = Some (JObj st)"
       "dict_get st ''overall'' (JStr ''unknown'') = JStr t"
    by blast
  have m: "main E s = finish auth o3 ?c s3"
    by (rule main_eq [OF w a' st])
  have r: "fst (main E s) = Inr ?c"
    unfolding m by (rule finish_ok [OF k(1) o])
  have c: "?c = (if dict_item auth ''success'' = Inr (JBool False) then 1
                else if \<not> frontend_isdir E then 0
                else if dict_item (fst (make_ports_public E init_st)) ''success''
                          = Inr (JBool False) then 2
                else 0)"
    using k(1) pi by auto
  from report_complete_when_main_returns [OF r] r c show ?thesis
    by simp
qed


text \<open>
  The branch that calls the browser agent: when the invoker returns a result whose
  \<open>overall\<close> is a string (the default \<open>unknown\<close> when absent), \<^verbatim>\<open>main\<close> returns with the
  exit code that the string maps to, and ends by printing the complete report.
\<close>

lemma report_with_invocation:
  assumes w: "wake_loop E [0..<WAKE_RETRIES] s = (Inr True, s1)"
      and a: "run_auth_test E s1 = (Inr auth, s2)"
      and k: "dict_item auth ''success'' = Inr (JBool True)"
             "dict_item auth ''email'' = Inr em" "dict_item auth ''password'' = Inr pw"
      and f: "frontend_isdir E"
      and p: "dict_item (fst (make_ports_public E s2)) ''success'' = Inr (JBool True)"
             "dict_item (fst (make_ports_public E s2)) ''frontend_url'' = Inr url"
      and c: "call_browser_agent E url em pw (read_features E) (snd (make_ports_public E s2))
                = (Inr smoke, s4)"
      and t: "dict_get smoke ''overall'' (JStr ''unknown'') = JStr t"
  shows "fst (main E s) = Inr (if t = ''pass'' then 0 else if t = ''skipped'' then 2 else 1)
       \<and> report_emitted (snd (main E s))"
proof -
  let ?c = "if t = ''pass'' then 0 else if t = ''skipped'' then 2 else (1::int)"
  let ?o3 = "AList.update ''browser_smoke_test'' (JObj smoke) (report_so_far E True auth)"
  have st: "browser_stage E (\<not> True) 0 auth (report_so_far E True auth) s2
              = (Inr (?o3, ?c), s4)"
    using k f p c t by (simp add: browser_stage_def split_beta)
  have m: "main E s = finish auth ?o3 ?c s4"
    by (rule main_eq [OF w a st])
  have o: "map_of ?o3 ''browser_smoke_test'' = Some (JObj smoke)"
    by (simp add: update_conv')
  have r: "fst (main E s) = Inr ?c"
    unfolding m by (rule finish_ok [OF k(1) o t])
  from report_complete_when_main_returns [OF r] r show ?thesis
    by simp
qed

text \<open>
  C8, at the failing input. The connectivity check and the auth flow succeed, the
  frontend directory exists, the ports are published, and the browser agent answers
  200 with a test whose notes are \<^verbatim>\<open>null\<close>. The invoker raises \<^verbatim>\<open>TypeError\<close>, which
  nothing in \<^verbatim>\<open>main\<close> catches: the run ends after its fifth request with exit status
  1, the results file is not written and no report is printed.
\<close>

theorem no_report_when_invoker_raises:
  "fst (main notes_null_run init_st) = Inl TypeError
   \<and> process_exit notes_null_run = 1
   \<and> \<not> report_emitted (snd (main notes_null_run init_st))
   \<and> printed_report (snd (main notes_null_run init_st)) = []
   \<and> calls (snd (main notes_null_run init_st)) = 5"
  by code_simp

end
